theory Spec2Isabelle
  imports Main
begin

section \<open>Dataset path resolver (src/finders/data_finders.py)\<close>

text \<open>
  The module checks that the directories and files of three fixed ECG dataset layouts
  exist under a project directory and returns their paths. It reads the filesystem and
  writes log lines; it writes no file.

  Modelling choices:
  \<^item> a path is the list of its components below the filesystem root (an absolute POSIX
    path); \<open>p / "name"\<close> appends one component and \<open>str(p)\<close> joins them with slashes;
  \<^item> the filesystem is a tree: a regular file, some other kind of entry (socket, fifo,
    device) or a directory with named entries; it is a read-only argument;
  \<^item> a string is a list of bytes, the Cyrillic log phrases being their UTF-8 encoding;
    \<open>str.lower\<close> is modelled on the ASCII letters (no other code point lowers to a letter
    of the three dataset names);
  \<^item> the effects are threaded through a record: the log lines emitted so far and the
    paths on which a filesystem method (\<open>exists\<close>, \<open>is_dir\<close>, \<open>is_file\<close>, \<open>glob\<close>) was
    called, both in program order;
  \<^item> an exception is the left summand of the result; the filesystem queries themselves
    are total (permission errors and symbolic links are not modelled).
\<close>

subsection \<open>Paths and the filesystem\<close>

type_synonym path = "string list"

definition path_str :: "path \<Rightarrow> string" where
  "path_str p = (if p = [] then ''/'' else concat (map (\<lambda>c. ''/'' @ c) p))"

datatype node = File | Other | Dir "(string \<times> node) list"

fun lookup :: "node \<Rightarrow> path \<Rightarrow> node option" where
  "lookup n [] = Some n"
| "lookup (Dir es) (c # cs) = (case map_of es c of None \<Rightarrow> None | Some m \<Rightarrow> lookup m cs)"
| "lookup File (c # cs) = None"
| "lookup Other (c # cs) = None"

definition path_exists :: "node \<Rightarrow> path \<Rightarrow> bool" where
  "path_exists fs p = (case lookup fs p of None \<Rightarrow> False | Some n \<Rightarrow> True)"

definition path_is_dir :: "node \<Rightarrow> path \<Rightarrow> bool" where
  "path_is_dir fs p = (case lookup fs p of Some (Dir es) \<Rightarrow> True | _ \<Rightarrow> False)"

definition path_is_file :: "node \<Rightarrow> path \<Rightarrow> bool" where
  "path_is_file fs p = (case lookup fs p of Some File \<Rightarrow> True | _ \<Rightarrow> False)"

text \<open>
  \<open>Path.glob("*")\<close> yields one path per entry of the directory; pathlib does not treat
  names that begin with a dot specially. On anything but a directory it yields nothing.
\<close>

definition path_glob_star :: "node \<Rightarrow> path \<Rightarrow> path list" where
  "path_glob_star fs p =
     (case lookup fs p of
        Some (Dir es) \<Rightarrow> map (\<lambda>name. p @ [name]) (remdups (map fst es))
      | _ \<Rightarrow> [])"

subsection \<open>Effects: log lines and filesystem queries\<close>

datatype level = ERROR | WARNING | INFO

record effects =
  log_lines :: "(level \<times> string) list"
  probed :: "path list"

definition logging_error :: "string \<Rightarrow> effects \<Rightarrow> effects" where
  "logging_error msg s = s\<lparr>log_lines := log_lines s @ [(ERROR, msg)]\<rparr>"

definition logging_warning :: "string \<Rightarrow> effects \<Rightarrow> effects" where
  "logging_warning msg s = s\<lparr>log_lines := log_lines s @ [(WARNING, msg)]\<rparr>"

definition logging_info :: "string \<Rightarrow> effects \<Rightarrow> effects" where
  "logging_info msg s = s\<lparr>log_lines := log_lines s @ [(INFO, msg)]\<rparr>"

definition probe :: "path \<Rightarrow> effects \<Rightarrow> effects" where
  "probe p s = s\<lparr>probed := probed s @ [p]\<rparr>"

datatype error = FileNotFoundError string | ValueError string

fun error_str :: "error \<Rightarrow> string" where
  "error_str (FileNotFoundError msg) = msg"
| "error_str (ValueError msg) = msg"

subsection \<open>Strings\<close>

text \<open>The three phrases of the validator's messages, as UTF-8 bytes:
  " does not exist: ", " is not a directory: ", " is not a file: " in Russian.\<close>

definition ne_sushchestvuet :: string where
  "ne_sushchestvuet =
     [CHR 0x20, CHR 0xD0, CHR 0xBD, CHR 0xD0, CHR 0xB5, CHR 0x20, CHR 0xD1, CHR 0x81,
      CHR 0xD1, CHR 0x83, CHR 0xD1, CHR 0x89, CHR 0xD0, CHR 0xB5, CHR 0xD1, CHR 0x81,
      CHR 0xD1, CHR 0x82, CHR 0xD0, CHR 0xB2, CHR 0xD1, CHR 0x83, CHR 0xD0, CHR 0xB5,
      CHR 0xD1, CHR 0x82, CHR 0x3A, CHR 0x20]"

definition ne_yavlyaetsya_direktoriey :: string where
  "ne_yavlyaetsya_direktoriey =
     [CHR 0x20, CHR 0xD0, CHR 0xBD, CHR 0xD0, CHR 0xB5, CHR 0x20, CHR 0xD1, CHR 0x8F,
      CHR 0xD0, CHR 0xB2, CHR 0xD0, CHR 0xBB, CHR 0xD1, CHR 0x8F, CHR 0xD0, CHR 0xB5,
      CHR 0xD1, CHR 0x82, CHR 0xD1, CHR 0x81, CHR 0xD1, CHR 0x8F, CHR 0x20, CHR 0xD0,
      CHR 0xB4, CHR 0xD0, CHR 0xB8, CHR 0xD1, CHR 0x80, CHR 0xD0, CHR 0xB5, CHR 0xD0,
      CHR 0xBA, CHR 0xD1, CHR 0x82, CHR 0xD0, CHR 0xBE, CHR 0xD1, CHR 0x80, CHR 0xD0,
      CHR 0xB8, CHR 0xD0, CHR 0xB5, CHR 0xD0, CHR 0xB9, CHR 0x3A, CHR 0x20]"

definition ne_yavlyaetsya_faylom :: string where
  "ne_yavlyaetsya_faylom =
     [CHR 0x20, CHR 0xD0, CHR 0xBD, CHR 0xD0, CHR 0xB5, CHR 0x20, CHR 0xD1, CHR 0x8F,
      CHR 0xD0, CHR 0xB2, CHR 0xD0, CHR 0xBB, CHR 0xD1, CHR 0x8F, CHR 0xD0, CHR 0xB5,
      CHR 0xD1, CHR 0x82, CHR 0xD1, CHR 0x81, CHR 0xD1, CHR 0x8F, CHR 0x20, CHR 0xD1,
      CHR 0x84, CHR 0xD0, CHR 0xB0, CHR 0xD0, CHR 0xB9, CHR 0xD0, CHR 0xBB, CHR 0xD0,
      CHR 0xBE, CHR 0xD0, CHR 0xBC, CHR 0x3A, CHR 0x20]"

definition lower_char :: "char \<Rightarrow> char" where
  "lower_char c =
     (case map_of (zip ''ABCDEFGHIJKLMNOPQRSTUVWXYZ'' ''abcdefghijklmnopqrstuvwxyz'') c of
        None \<Rightarrow> c
      | Some d \<Rightarrow> d)"

definition lower :: "string \<Rightarrow> string" where
  "lower s = map lower_char s"

text \<open>\<open>str(n)\<close> for a natural number: its decimal digits.\<close>

fun str_nat :: "nat \<Rightarrow> string" where
  "str_nat n =
     (if n < 10 then [''0123456789'' ! n]
      else str_nat (n div 10) @ [''0123456789'' ! (n mod 10)])"

subsection \<open>validate_path_exists\<close>

text \<open>
  The conditions \<open>is_dir and not path.is_dir()\<close> and \<open>not is_dir and not path.is_file()\<close>
  short-circuit, so that after \<open>exists\<close> exactly one further method is called on the path.
\<close>

definition validate_path_exists ::
  "node \<Rightarrow> path \<Rightarrow> bool \<Rightarrow> string \<Rightarrow> effects \<Rightarrow> bool \<times> effects" where
  "validate_path_exists fs path is_dir path_name s =
     (let s1 = probe path s in
      if \<not> path_exists fs path then
        (False, logging_error (path_name @ ne_sushchestvuet @ path_str path) s1)
      else
        let s2 = probe path s1 in
        if is_dir \<and> \<not> path_is_dir fs path then
          (False, logging_error (path_name @ ne_yavlyaetsya_direktoriey @ path_str path) s2)
        else if \<not> is_dir \<and> \<not> path_is_file fs path then
          (False, logging_error (path_name @ ne_yavlyaetsya_faylom @ path_str path) s2)
        else (True, s2))"

subsection \<open>find_csv_dir_files_china\<close>

definition find_csv_dir_files_china ::
  "node \<Rightarrow> path \<Rightarrow> effects \<Rightarrow> (error + path \<times> path \<times> path) \<times> effects" where
  "find_csv_dir_files_china fs project_dir s0 =
     (case validate_path_exists fs project_dir True ''Project directory'' s0 of (ok1, s1) \<Rightarrow>
      if \<not> ok1 then
        (Inl (FileNotFoundError (''Project directory not found: '' @ path_str project_dir)), s1)
      else
      let data_dir = project_dir @ [''data''] in
      case validate_path_exists fs data_dir True ''Data directory'' s1 of (ok2, s2) \<Rightarrow>
      if \<not> ok2 then
        (Inl (FileNotFoundError (''Data directory not found: '' @ path_str data_dir)), s2)
      else
      let dataset_dir = data_dir @ [''china_12_lead''] in
      case validate_path_exists fs dataset_dir True ''Dataset directory'' s2 of (ok3, s3) \<Rightarrow>
      if \<not> ok3 then
        (Inl (FileNotFoundError (''Dataset directory not found: '' @ path_str dataset_dir)), s3)
      else
      let records_dir = dataset_dir @ [''records''] in
      case validate_path_exists fs records_dir True ''Records directory'' s3 of (ok4, s4) \<Rightarrow>
      if \<not> ok4 then
        (Inl (FileNotFoundError (''Records directory not found: '' @ path_str records_dir)), s4)
      else
      let metadata_file = dataset_dir @ [''metadata.csv''] in
      case validate_path_exists fs metadata_file False ''Metadata file'' s4 of (ok5, s5) \<Rightarrow>
      if \<not> ok5 then
        (Inl (FileNotFoundError (''Metadata file not found: '' @ path_str metadata_file)), s5)
      else
      let code_file = dataset_dir @ [''code.csv''] in
      case validate_path_exists fs code_file False ''Code file'' s5 of (ok6, s6) \<Rightarrow>
      if \<not> ok6 then
        (Inl (FileNotFoundError (''Code file not found: '' @ path_str code_file)), s6)
      else
        (Inr (records_dir, metadata_file, code_file),
         logging_info ''Successfully validated all paths for china_12_lead dataset'' s6))"

subsection \<open>find_csv_dir_files_ptb_xl\<close>

definition find_csv_dir_files_ptb_xl ::
  "node \<Rightarrow> path \<Rightarrow> effects \<Rightarrow> (error + path \<times> path \<times> path \<times> path) \<times> effects" where
  "find_csv_dir_files_ptb_xl fs project_dir s0 =
     (case validate_path_exists fs project_dir True ''Project directory'' s0 of (ok1, s1) \<Rightarrow>
      if \<not> ok1 then
        (Inl (FileNotFoundError (''Project directory not found: '' @ path_str project_dir)), s1)
      else
      let data_dir = project_dir @ [''data''] in
      case validate_path_exists fs data_dir True ''Data directory'' s1 of (ok2, s2) \<Rightarrow>
      if \<not> ok2 then
        (Inl (FileNotFoundError (''Data directory not found: '' @ path_str data_dir)), s2)
      else
      let dataset_dir = data_dir @ [''ptb_xl''] in
      case validate_path_exists fs dataset_dir True ''Dataset directory'' s2 of (ok3, s3) \<Rightarrow>
      if \<not> ok3 then
        (Inl (FileNotFoundError (''Dataset directory not found: '' @ path_str dataset_dir)), s3)
      else
      let records100_dir = dataset_dir @ [''records100''];
          records500_dir = dataset_dir @ [''records500''] in
      case validate_path_exists fs records100_dir True ''Records100 directory'' s3 of
        (ok100, s4) \<Rightarrow>
      let s5 = (if ok100
                then logging_info (''Found low resolution records: '' @ path_str records100_dir) s4
                else s4) in
      case validate_path_exists fs records500_dir True ''Records500 directory'' s5 of
        (ok500, s6) \<Rightarrow>
      let s7 = (if ok500
                then logging_info (''Found high resolution records: '' @ path_str records500_dir) s6
                else s6);
          records_found = (ok100 \<or> ok500) in
      if \<not> records_found then
        (Inl (FileNotFoundError
               (''No record directories found in '' @ path_str dataset_dir @ ''. '' @
                ''Checked: '' @ path_str records100_dir @ '', '' @ path_str records500_dir)), s7)
      else
      let metadata_file = dataset_dir @ [''ptbxl_database.csv''] in
      case validate_path_exists fs metadata_file False ''Metadata file'' s7 of (ok5, s8) \<Rightarrow>
      if \<not> ok5 then
        (Inl (FileNotFoundError (''Metadata file not found: '' @ path_str metadata_file)), s8)
      else
      let code_file = dataset_dir @ [''scp_statements.csv''] in
      case validate_path_exists fs code_file False ''Code file'' s8 of (ok6, s9) \<Rightarrow>
      if \<not> ok6 then
        (Inl (FileNotFoundError (''Code file not found: '' @ path_str code_file)), s9)
      else
        (Inr (records100_dir, records500_dir, metadata_file, code_file),
         logging_info ''Successfully validated all paths for ptb_xl dataset'' s9))"

subsection \<open>find_dirs_mit_bih\<close>

definition find_dirs_mit_bih ::
  "node \<Rightarrow> path \<Rightarrow> effects \<Rightarrow> (error + path \<times> path) \<times> effects" where
  "find_dirs_mit_bih fs project_dir s0 =
     (case validate_path_exists fs project_dir True ''Project directory'' s0 of (ok1, s1) \<Rightarrow>
      if \<not> ok1 then
        (Inl (FileNotFoundError (''Project directory not found: '' @ path_str project_dir)), s1)
      else
      let data_dir = project_dir @ [''data''] in
      case validate_path_exists fs data_dir True ''Data directory'' s1 of (ok2, s2) \<Rightarrow>
      if \<not> ok2 then
        (Inl (FileNotFoundError (''Data directory not found: '' @ path_str data_dir)), s2)
      else
      let mit_bih_dir = data_dir @ [''mit_bih''] in
      case validate_path_exists fs mit_bih_dir True ''MIT-BIH directory'' s2 of (ok3, s3) \<Rightarrow>
      if \<not> ok3 then
        (Inl (FileNotFoundError (''MIT-BIH directory not found: '' @ path_str mit_bih_dir)), s3)
      else
      let x_mit_bih_dir = mit_bih_dir @ [''x_mitdb''] in
      case validate_path_exists fs x_mit_bih_dir True ''X-MITDB directory'' s3 of (ok4, s4) \<Rightarrow>
      if \<not> ok4 then
        (let s5 = logging_warning (''X-MITDB directory not found: '' @ path_str x_mit_bih_dir) s4;
             s6 = logging_info ''Checking MIT-BIH root directory for files...'' s5;
             files = path_glob_star fs mit_bih_dir;
             s7 = probe mit_bih_dir s6 in
         if files = [] then
           (Inl (FileNotFoundError
                  (''No files found in MIT-BIH directory: '' @ path_str mit_bih_dir)), s7)
         else
           (Inr (mit_bih_dir, x_mit_bih_dir),
            logging_info ''Successfully validated MIT-BIH dataset paths''
              (logging_info (''Found '' @ str_nat (length files) @
                             '' files/directories in MIT-BIH root directory'') s7)))
      else
        (Inr (mit_bih_dir, x_mit_bih_dir),
         logging_info ''Successfully validated MIT-BIH dataset paths'' s4))"

subsection \<open>safe_find_paths\<close>

text \<open>
  The body of the \<open>try\<close> block. The resolvers return tuples of different lengths; the
  wrapper's result is the tuple as a list of paths.
\<close>

definition safe_find_paths_try ::
  "node \<Rightarrow> string \<Rightarrow> path \<Rightarrow> effects \<Rightarrow> (error + path list) \<times> effects" where
  "safe_find_paths_try fs dataset_name project_dir s =
     (if lower dataset_name = ''china'' then
        (case find_csv_dir_files_china fs project_dir s of
           (Inl e, s') \<Rightarrow> (Inl e, s')
         | (Inr (a, b, c), s') \<Rightarrow> (Inr [a, b, c], s'))
      else if lower dataset_name = ''ptb_xl'' then
        (case find_csv_dir_files_ptb_xl fs project_dir s of
           (Inl e, s') \<Rightarrow> (Inl e, s')
         | (Inr (a, b, c, d), s') \<Rightarrow> (Inr [a, b, c, d], s'))
      else if lower dataset_name = ''mit_bih'' then
        (case find_dirs_mit_bih fs project_dir s of
           (Inl e, s') \<Rightarrow> (Inl e, s')
         | (Inr (a, b), s') \<Rightarrow> (Inr [a, b], s'))
      else
        (Inl (ValueError
               (''Unknown dataset name: '' @ dataset_name @ ''. '' @
                ''Available: '' @ [CHR 0x27] @ ''china'' @ [CHR 0x27] @ '', '' @
                [CHR 0x27] @ ''ptb_xl'' @ [CHR 0x27] @ '', '' @
                [CHR 0x27] @ ''mit_bih'' @ [CHR 0x27])), s))"

text \<open>The \<open>except\<close> clause catches both error kinds, logs one line and re-raises.\<close>

definition safe_find_paths ::
  "node \<Rightarrow> string \<Rightarrow> path \<Rightarrow> effects \<Rightarrow> (error + path list) \<times> effects" where
  "safe_find_paths fs dataset_name project_dir s =
     (case safe_find_paths_try fs dataset_name project_dir s of
        (Inl e, s') \<Rightarrow>
          (Inl e,
           logging_error (''Failed to find paths for dataset '' @ [CHR 0x27] @ dataset_name @
                          [CHR 0x27] @ '': '' @ error_str e) s')
      | (Inr v, s') \<Rightarrow> (Inr v, s'))"

subsection \<open>The dataset layouts\<close>

abbreviation data_dir :: "path \<Rightarrow> path" where
  "data_dir root \<equiv> root @ [''data'']"

abbreviation china_dataset_dir :: "path \<Rightarrow> path" where
  "china_dataset_dir root \<equiv> root @ [''data'', ''china_12_lead'']"

abbreviation china_records_dir :: "path \<Rightarrow> path" where
  "china_records_dir root \<equiv> root @ [''data'', ''china_12_lead'', ''records'']"

abbreviation china_metadata_file :: "path \<Rightarrow> path" where
  "china_metadata_file root \<equiv> root @ [''data'', ''china_12_lead'', ''metadata.csv'']"

abbreviation china_code_file :: "path \<Rightarrow> path" where
  "china_code_file root \<equiv> root @ [''data'', ''china_12_lead'', ''code.csv'']"

abbreviation ptb_xl_dataset_dir :: "path \<Rightarrow> path" where
  "ptb_xl_dataset_dir root \<equiv> root @ [''data'', ''ptb_xl'']"

abbreviation records100_dir :: "path \<Rightarrow> path" where
  "records100_dir root \<equiv> root @ [''data'', ''ptb_xl'', ''records100'']"

abbreviation records500_dir :: "path \<Rightarrow> path" where
  "records500_dir root \<equiv> root @ [''data'', ''ptb_xl'', ''records500'']"

abbreviation ptb_xl_metadata_file :: "path \<Rightarrow> path" where
  "ptb_xl_metadata_file root \<equiv> root @ [''data'', ''ptb_xl'', ''ptbxl_database.csv'']"

abbreviation ptb_xl_code_file :: "path \<Rightarrow> path" where
  "ptb_xl_code_file root \<equiv> root @ [''data'', ''ptb_xl'', ''scp_statements.csv'']"

abbreviation mit_bih_dir :: "path \<Rightarrow> path" where
  "mit_bih_dir root \<equiv> root @ [''data'', ''mit_bih'']"

abbreviation x_mit_bih_dir :: "path \<Rightarrow> path" where
  "x_mit_bih_dir root \<equiv> root @ [''data'', ''mit_bih'', ''x_mitdb'']"

subsection \<open>What the validator is specified to decide, and its effects in closed form\<close>

definition matches_kind :: "node \<Rightarrow> path \<Rightarrow> bool \<Rightarrow> bool" where
  "matches_kind fs p is_dir =
     (path_exists fs p \<and> (if is_dir then path_is_dir fs p else path_is_file fs p))"

definition validate_log :: "node \<Rightarrow> path \<Rightarrow> bool \<Rightarrow> string \<Rightarrow> (level \<times> string) list" where
  "validate_log fs p is_dir path_name =
     (if \<not> path_exists fs p then [(ERROR, path_name @ ne_sushchestvuet @ path_str p)]
      else if is_dir \<and> \<not> path_is_dir fs p
        then [(ERROR, path_name @ ne_yavlyaetsya_direktoriey @ path_str p)]
      else if \<not> is_dir \<and> \<not> path_is_file fs p
        then [(ERROR, path_name @ ne_yavlyaetsya_faylom @ path_str p)]
      else [])"

definition validate_probes :: "node \<Rightarrow> path \<Rightarrow> path list" where
  "validate_probes fs p = (if path_exists fs p then [p, p] else [p])"

definition s_init :: effects where
  "s_init = \<lparr>log_lines = [], probed = []\<rparr>"

text \<open>The log lines and the queries of the records stage, which checks both directories.\<close>

definition records_stage_log :: "node \<Rightarrow> path \<Rightarrow> (level \<times> string) list" where
  "records_stage_log fs root =
     validate_log fs (records100_dir root) True ''Records100 directory'' @
     (if path_is_dir fs (records100_dir root)
      then [(INFO, ''Found low resolution records: '' @ path_str (records100_dir root))]
      else []) @
     validate_log fs (records500_dir root) True ''Records500 directory'' @
     (if path_is_dir fs (records500_dir root)
      then [(INFO, ''Found high resolution records: '' @ path_str (records500_dir root))]
      else [])"

definition records_stage_probes :: "node \<Rightarrow> path \<Rightarrow> path list" where
  "records_stage_probes fs root =
     validate_probes fs (records100_dir root) @ validate_probes fs (records500_dir root)"


text \<open>The lines logged and the queries made between two states of the effects.\<close>

definition new_log :: "effects \<Rightarrow> effects \<Rightarrow> (level \<times> string) list" where
  "new_log s s' = drop (length (log_lines s)) (log_lines s')"

definition new_probes :: "effects \<Rightarrow> effects \<Rightarrow> path list" where
  "new_probes s s' = drop (length (probed s)) (probed s')"

definition has_error :: "(level \<times> string) list \<Rightarrow> bool" where
  "has_error ls = (filter (\<lambda>l. fst l = ERROR) ls \<noteq> [])"

text \<open>
  A log holds the validator's error line for a check when the check fails and the log has
  an error line made of the check's label, one of the three reasons and the checked path.
\<close>

definition validator_error_line ::
  "node \<Rightarrow> string \<Rightarrow> path \<Rightarrow> bool \<Rightarrow> (level \<times> string) list \<Rightarrow> bool" where
  "validator_error_line fs l p d ls =
     (\<not> matches_kind fs p d \<and>
      (\<exists>reason \<in> {ne_sushchestvuet, ne_yavlyaetsya_direktoriey, ne_yavlyaetsya_faylom}.
         (ERROR, l @ reason @ path_str p) \<in> set ls))"

subsection \<open>Chains of checks\<close>

text \<open>
  A check is a validator call: the label, the path and whether a directory is expected.
  The lists below are the validator calls of each resolver in program order.
\<close>

type_synonym check = "string \<times> path \<times> bool"

definition china_checks :: "path \<Rightarrow> check list" where
  "china_checks root =
     [(''Project directory'', root, True),
      (''Data directory'', data_dir root, True),
      (''Dataset directory'', china_dataset_dir root, True),
      (''Records directory'', china_records_dir root, True),
      (''Metadata file'', china_metadata_file root, False),
      (''Code file'', china_code_file root, False)]"

definition ptb_xl_head_checks :: "path \<Rightarrow> check list" where
  "ptb_xl_head_checks root =
     [(''Project directory'', root, True),
      (''Data directory'', data_dir root, True),
      (''Dataset directory'', ptb_xl_dataset_dir root, True)]"

definition ptb_xl_records_checks :: "path \<Rightarrow> check list" where
  "ptb_xl_records_checks root =
     [(''Records100 directory'', records100_dir root, True),
      (''Records500 directory'', records500_dir root, True)]"

definition ptb_xl_tail_checks :: "path \<Rightarrow> check list" where
  "ptb_xl_tail_checks root =
     [(''Metadata file'', ptb_xl_metadata_file root, False),
      (''Code file'', ptb_xl_code_file root, False)]"

definition mit_bih_checks :: "path \<Rightarrow> check list" where
  "mit_bih_checks root =
     [(''Project directory'', root, True),
      (''Data directory'', data_dir root, True),
      (''MIT-BIH directory'', mit_bih_dir root, True)]"

text \<open>The first check of a chain that fails, if any.\<close>

fun first_failing :: "node \<Rightarrow> check list \<Rightarrow> check option" where
  "first_failing fs [] = None"
| "first_failing fs ((l, p, d) # cs) =
     (if matches_kind fs p d then first_failing fs cs else Some (l, p, d))"

text \<open>The queries of validating a chain in order up to and including its first failing
  check, and the paths of the checks after that one.\<close>

fun probes_upto :: "node \<Rightarrow> check list \<Rightarrow> path list" where
  "probes_upto fs [] = []"
| "probes_upto fs ((l, p, d) # cs) =
     validate_probes fs p @ (if matches_kind fs p d then probes_upto fs cs else [])"

fun later_paths :: "node \<Rightarrow> check list \<Rightarrow> path list" where
  "later_paths fs [] = []"
| "later_paths fs ((l, p, d) # cs) =
     (if matches_kind fs p d then later_paths fs cs else map (\<lambda>c. fst (snd c)) cs)"

subsection \<open>Example filesystem\<close>

text \<open>
  Project \<open>/proj\<close> has the full China layout, a PTB-XL layout without \<open>records500\<close> and a
  MIT-BIH directory holding one hidden file; \<open>/bare\<close> has empty dataset directories;
  \<open>/part\<close> has a PTB-XL directory with \<open>records500\<close> only; \<open>/full\<close> has a MIT-BIH
  directory with an empty \<open>x_mitdb\<close>.
\<close>

definition fs_example :: node where
  "fs_example = Dir
     [(''proj'', Dir [(''data'', Dir
        [(''china_12_lead'',
            Dir [(''records'', Dir []), (''metadata.csv'', File), (''code.csv'', File)]),
         (''ptb_xl'',
            Dir [(''records100'', Dir []), (''ptbxl_database.csv'', File),
                 (''scp_statements.csv'', File)]),
         (''mit_bih'', Dir [(''.hidden'', File)])])]),
      (''bare'', Dir [(''data'', Dir [(''ptb_xl'', Dir []), (''mit_bih'', Dir [])])]),
      (''part'', Dir [(''data'', Dir [(''ptb_xl'', Dir [(''records500'', Dir [])])])]),
      (''full'', Dir [(''data'', Dir [(''mit_bih'', Dir [(''x_mitdb'', Dir [])])])])]"

section \<open>Properties\<close>

subsection \<open>Filesystem queries and the validator\<close>

lemmas effects_defs = logging_error_def logging_warning_def logging_info_def probe_def

lemmas fs_query_defs = path_exists_def path_is_dir_def path_is_file_def path_glob_star_def

lemma path_is_dir_exists: "path_is_dir fs p \<Longrightarrow> path_exists fs p"
  by (auto simp: path_is_dir_def path_exists_def split: option.splits)

lemma path_is_file_exists: "path_is_file fs p \<Longrightarrow> path_exists fs p"
  by (auto simp: path_is_file_def path_exists_def split: option.splits)

lemma matches_kind_dir [simp]: "matches_kind fs p True = path_is_dir fs p"
  by (auto simp: matches_kind_def dest: path_is_dir_exists)

lemma matches_kind_file [simp]: "matches_kind fs p False = path_is_file fs p"
  by (auto simp: matches_kind_def dest: path_is_file_exists)

lemma validate_path_exists_eq:
  "validate_path_exists fs p d n s =
     (matches_kind fs p d,
      s\<lparr>log_lines := log_lines s @ validate_log fs p d n,
        probed := probed s @ validate_probes fs p\<rparr>)"
  by (auto simp: validate_path_exists_def matches_kind_def validate_log_def validate_probes_def
      effects_defs Let_def)

lemma validate_log_ok [simp]: "matches_kind fs p d \<Longrightarrow> validate_log fs p d n = []"
  by (auto simp: matches_kind_def validate_log_def split: if_splits)

lemma validate_log_dir [simp]: "path_is_dir fs p \<Longrightarrow> validate_log fs p True n = []"
  using validate_log_ok [of fs p True] by simp

lemma validate_log_file [simp]: "path_is_file fs p \<Longrightarrow> validate_log fs p False n = []"
  using validate_log_ok [of fs p False] by simp

lemma validate_log_failed:
  "\<not> matches_kind fs p d \<Longrightarrow>
     \<exists>reason \<in> {ne_sushchestvuet, ne_yavlyaetsya_direktoriey, ne_yavlyaetsya_faylom}.
        validate_log fs p d n = [(ERROR, n @ reason @ path_str p)]"
  by (auto simp: matches_kind_def validate_log_def split: if_splits)

lemma validate_probes_dir [simp]: "path_is_dir fs p \<Longrightarrow> validate_probes fs p = [p, p]"
  by (simp add: validate_probes_def path_is_dir_exists)

lemma validate_probes_file [simp]: "path_is_file fs p \<Longrightarrow> validate_probes fs p = [p, p]"
  by (simp add: validate_probes_def path_is_file_exists)

lemma lookup_append:
  "lookup fs (p @ [c]) =
     (case lookup fs p of Some (Dir es) \<Rightarrow> map_of es c | _ \<Rightarrow> None)"
  by (induction fs p rule: lookup.induct) (auto split: option.splits node.splits)

lemma glob_nonempty_iff:
  "path_glob_star fs p \<noteq> [] \<longleftrightarrow> (\<exists>name. path_exists fs (p @ [name]))"
proof (cases "lookup fs p")
  case None
  then show ?thesis by (simp add: fs_query_defs lookup_append)
next
  case (Some n)
  show ?thesis
  proof (cases n)
    case (Dir es)
    have "(\<exists>name. map_of es name \<noteq> None) \<longleftrightarrow> es \<noteq> []"
      by (cases es) (auto simp: fun_eq_iff)
    with Some Dir show ?thesis
      by (auto simp: fs_query_defs lookup_append split: option.splits)
  qed (use Some in \<open>simp_all add: fs_query_defs lookup_append\<close>)
qed

lemmas resolver_simps = validate_path_exists_eq effects_defs Let_def

subsection \<open>Outcome tables of the three resolvers\<close>

text \<open>One lemma per way through each resolver: the result and the effects.\<close>

lemma china_fail_root:
  assumes "\<not> path_is_dir fs root"
  shows "find_csv_dir_files_china fs root s =
     (Inl (FileNotFoundError (''Project directory not found: '' @ path_str root)),
      s\<lparr>log_lines := log_lines s @ validate_log fs root True ''Project directory'',
        probed := probed s @ validate_probes fs root\<rparr>)"
  using assms by (simp add: find_csv_dir_files_china_def resolver_simps)

lemma china_fail_data:
  assumes "path_is_dir fs root" "\<not> path_is_dir fs (data_dir root)"
  shows "find_csv_dir_files_china fs root s =
     (Inl (FileNotFoundError (''Data directory not found: '' @ path_str (data_dir root))),
      s\<lparr>log_lines := log_lines s @ validate_log fs (data_dir root) True ''Data directory'',
        probed := probed s @ [root, root] @ validate_probes fs (data_dir root)\<rparr>)"
  using assms by (simp add: find_csv_dir_files_china_def resolver_simps)

lemma china_fail_dataset:
  assumes "path_is_dir fs root" "path_is_dir fs (data_dir root)"
    "\<not> path_is_dir fs (china_dataset_dir root)"
  shows "find_csv_dir_files_china fs root s =
     (Inl (FileNotFoundError
            (''Dataset directory not found: '' @ path_str (china_dataset_dir root))),
      s\<lparr>log_lines := log_lines s @
          validate_log fs (china_dataset_dir root) True ''Dataset directory'',
        probed := probed s @ [root, root, data_dir root, data_dir root] @
          validate_probes fs (china_dataset_dir root)\<rparr>)"
  using assms by (simp add: find_csv_dir_files_china_def resolver_simps)

lemma china_fail_records:
  assumes "path_is_dir fs root" "path_is_dir fs (data_dir root)"
    "path_is_dir fs (china_dataset_dir root)" "\<not> path_is_dir fs (china_records_dir root)"
  shows "find_csv_dir_files_china fs root s =
     (Inl (FileNotFoundError
            (''Records directory not found: '' @ path_str (china_records_dir root))),
      s\<lparr>log_lines := log_lines s @
          validate_log fs (china_records_dir root) True ''Records directory'',
        probed := probed s @ [root, root, data_dir root, data_dir root,
          china_dataset_dir root, china_dataset_dir root] @
          validate_probes fs (china_records_dir root)\<rparr>)"
  using assms by (simp add: find_csv_dir_files_china_def resolver_simps)

lemma china_fail_metadata:
  assumes "path_is_dir fs root" "path_is_dir fs (data_dir root)"
    "path_is_dir fs (china_dataset_dir root)" "path_is_dir fs (china_records_dir root)"
    "\<not> path_is_file fs (china_metadata_file root)"
  shows "find_csv_dir_files_china fs root s =
     (Inl (FileNotFoundError
            (''Metadata file not found: '' @ path_str (china_metadata_file root))),
      s\<lparr>log_lines := log_lines s @
          validate_log fs (china_metadata_file root) False ''Metadata file'',
        probed := probed s @ [root, root, data_dir root, data_dir root,
          china_dataset_dir root, china_dataset_dir root,
          china_records_dir root, china_records_dir root] @
          validate_probes fs (china_metadata_file root)\<rparr>)"
  using assms by (simp add: find_csv_dir_files_china_def resolver_simps)

lemma china_fail_code:
  assumes "path_is_dir fs root" "path_is_dir fs (data_dir root)"
    "path_is_dir fs (china_dataset_dir root)" "path_is_dir fs (china_records_dir root)"
    "path_is_file fs (china_metadata_file root)" "\<not> path_is_file fs (china_code_file root)"
  shows "find_csv_dir_files_china fs root s =
     (Inl (FileNotFoundError (''Code file not found: '' @ path_str (china_code_file root))),
      s\<lparr>log_lines := log_lines s @
          validate_log fs (china_code_file root) False ''Code file'',
        probed := probed s @ [root, root, data_dir root, data_dir root,
          china_dataset_dir root, china_dataset_dir root,
          china_records_dir root, china_records_dir root,
          china_metadata_file root, china_metadata_file root] @
          validate_probes fs (china_code_file root)\<rparr>)"
  using assms by (simp add: find_csv_dir_files_china_def resolver_simps)

lemma china_success:
  assumes "path_is_dir fs root" "path_is_dir fs (data_dir root)"
    "path_is_dir fs (china_dataset_dir root)" "path_is_dir fs (china_records_dir root)"
    "path_is_file fs (china_metadata_file root)" "path_is_file fs (china_code_file root)"
  shows "find_csv_dir_files_china fs root s =
     (Inr (china_records_dir root, china_metadata_file root, china_code_file root),
      s\<lparr>log_lines := log_lines s @
          [(INFO, ''Successfully validated all paths for china_12_lead dataset'')],
        probed := probed s @ [root, root, data_dir root, data_dir root,
          china_dataset_dir root, china_dataset_dir root,
          china_records_dir root, china_records_dir root,
          china_metadata_file root, china_metadata_file root,
          china_code_file root, china_code_file root]\<rparr>)"
  using assms by (simp add: find_csv_dir_files_china_def resolver_simps)

lemmas china_table = china_fail_root china_fail_data china_fail_dataset china_fail_records
  china_fail_metadata china_fail_code china_success

lemma ptb_xl_fail_root:
  assumes "\<not> path_is_dir fs root"
  shows "find_csv_dir_files_ptb_xl fs root s =
     (Inl (FileNotFoundError (''Project directory not found: '' @ path_str root)),
      s\<lparr>log_lines := log_lines s @ validate_log fs root True ''Project directory'',
        probed := probed s @ validate_probes fs root\<rparr>)"
  using assms by (simp add: find_csv_dir_files_ptb_xl_def resolver_simps)

lemma ptb_xl_fail_data:
  assumes "path_is_dir fs root" "\<not> path_is_dir fs (data_dir root)"
  shows "find_csv_dir_files_ptb_xl fs root s =
     (Inl (FileNotFoundError (''Data directory not found: '' @ path_str (data_dir root))),
      s\<lparr>log_lines := log_lines s @ validate_log fs (data_dir root) True ''Data directory'',
        probed := probed s @ [root, root] @ validate_probes fs (data_dir root)\<rparr>)"
  using assms by (simp add: find_csv_dir_files_ptb_xl_def resolver_simps)

lemma ptb_xl_fail_dataset:
  assumes "path_is_dir fs root" "path_is_dir fs (data_dir root)"
    "\<not> path_is_dir fs (ptb_xl_dataset_dir root)"
  shows "find_csv_dir_files_ptb_xl fs root s =
     (Inl (FileNotFoundError
            (''Dataset directory not found: '' @ path_str (ptb_xl_dataset_dir root))),
      s\<lparr>log_lines := log_lines s @
          validate_log fs (ptb_xl_dataset_dir root) True ''Dataset directory'',
        probed := probed s @ [root, root, data_dir root, data_dir root] @
          validate_probes fs (ptb_xl_dataset_dir root)\<rparr>)"
  using assms by (simp add: find_csv_dir_files_ptb_xl_def resolver_simps)

lemma ptb_xl_fail_records:
  assumes "path_is_dir fs root" "path_is_dir fs (data_dir root)"
    "path_is_dir fs (ptb_xl_dataset_dir root)"
    "\<not> path_is_dir fs (records100_dir root)" "\<not> path_is_dir fs (records500_dir root)"
  shows "find_csv_dir_files_ptb_xl fs root s =
     (Inl (FileNotFoundError
            (''No record directories found in '' @ path_str (ptb_xl_dataset_dir root) @
             ''. Checked: '' @ path_str (records100_dir root) @ '', '' @
             path_str (records500_dir root))),
      s\<lparr>log_lines := log_lines s @ records_stage_log fs root,
        probed := probed s @ [root, root, data_dir root, data_dir root,
          ptb_xl_dataset_dir root, ptb_xl_dataset_dir root] @
          records_stage_probes fs root\<rparr>)"
  using assms
  by (simp add: find_csv_dir_files_ptb_xl_def resolver_simps records_stage_log_def
      records_stage_probes_def)

lemma ptb_xl_fail_metadata:
  assumes "path_is_dir fs root" "path_is_dir fs (data_dir root)"
    "path_is_dir fs (ptb_xl_dataset_dir root)"
    "path_is_dir fs (records100_dir root) \<or> path_is_dir fs (records500_dir root)"
    "\<not> path_is_file fs (ptb_xl_metadata_file root)"
  shows "find_csv_dir_files_ptb_xl fs root s =
     (Inl (FileNotFoundError
            (''Metadata file not found: '' @ path_str (ptb_xl_metadata_file root))),
      s\<lparr>log_lines := log_lines s @ records_stage_log fs root @
          validate_log fs (ptb_xl_metadata_file root) False ''Metadata file'',
        probed := probed s @ [root, root, data_dir root, data_dir root,
          ptb_xl_dataset_dir root, ptb_xl_dataset_dir root] @
          records_stage_probes fs root @
          validate_probes fs (ptb_xl_metadata_file root)\<rparr>)"
  using assms
  by (auto simp: find_csv_dir_files_ptb_xl_def resolver_simps records_stage_log_def
      records_stage_probes_def)

lemma ptb_xl_fail_code:
  assumes "path_is_dir fs root" "path_is_dir fs (data_dir root)"
    "path_is_dir fs (ptb_xl_dataset_dir root)"
    "path_is_dir fs (records100_dir root) \<or> path_is_dir fs (records500_dir root)"
    "path_is_file fs (ptb_xl_metadata_file root)"
    "\<not> path_is_file fs (ptb_xl_code_file root)"
  shows "find_csv_dir_files_ptb_xl fs root s =
     (Inl (FileNotFoundError (''Code file not found: '' @ path_str (ptb_xl_code_file root))),
      s\<lparr>log_lines := log_lines s @ records_stage_log fs root @
          validate_log fs (ptb_xl_code_file root) False ''Code file'',
        probed := probed s @ [root, root, data_dir root, data_dir root,
          ptb_xl_dataset_dir root, ptb_xl_dataset_dir root] @
          records_stage_probes fs root @
          [ptb_xl_metadata_file root, ptb_xl_metadata_file root] @
          validate_probes fs (ptb_xl_code_file root)\<rparr>)"
  using assms
  by (auto simp: find_csv_dir_files_ptb_xl_def resolver_simps records_stage_log_def
      records_stage_probes_def)

lemma ptb_xl_success:
  assumes "path_is_dir fs root" "path_is_dir fs (data_dir root)"
    "path_is_dir fs (ptb_xl_dataset_dir root)"
    "path_is_dir fs (records100_dir root) \<or> path_is_dir fs (records500_dir root)"
    "path_is_file fs (ptb_xl_metadata_file root)"
    "path_is_file fs (ptb_xl_code_file root)"
  shows "find_csv_dir_files_ptb_xl fs root s =
     (Inr (records100_dir root, records500_dir root,
           ptb_xl_metadata_file root, ptb_xl_code_file root),
      s\<lparr>log_lines := log_lines s @ records_stage_log fs root @
          [(INFO, ''Successfully validated all paths for ptb_xl dataset'')],
        probed := probed s @ [root, root, data_dir root, data_dir root,
          ptb_xl_dataset_dir root, ptb_xl_dataset_dir root] @
          records_stage_probes fs root @
          [ptb_xl_metadata_file root, ptb_xl_metadata_file root,
           ptb_xl_code_file root, ptb_xl_code_file root]\<rparr>)"
  using assms
  by (auto simp: find_csv_dir_files_ptb_xl_def resolver_simps records_stage_log_def
      records_stage_probes_def)

lemmas ptb_xl_table = ptb_xl_fail_root ptb_xl_fail_data ptb_xl_fail_dataset
  ptb_xl_fail_records ptb_xl_fail_metadata ptb_xl_fail_code ptb_xl_success

lemma mit_bih_fail_root:
  assumes "\<not> path_is_dir fs root"
  shows "find_dirs_mit_bih fs root s =
     (Inl (FileNotFoundError (''Project directory not found: '' @ path_str root)),
      s\<lparr>log_lines := log_lines s @ validate_log fs root True ''Project directory'',
        probed := probed s @ validate_probes fs root\<rparr>)"
  using assms by (simp add: find_dirs_mit_bih_def resolver_simps)

lemma mit_bih_fail_data:
  assumes "path_is_dir fs root" "\<not> path_is_dir fs (data_dir root)"
  shows "find_dirs_mit_bih fs root s =
     (Inl (FileNotFoundError (''Data directory not found: '' @ path_str (data_dir root))),
      s\<lparr>log_lines := log_lines s @ validate_log fs (data_dir root) True ''Data directory'',
        probed := probed s @ [root, root] @ validate_probes fs (data_dir root)\<rparr>)"
  using assms by (simp add: find_dirs_mit_bih_def resolver_simps)

lemma mit_bih_fail_dataset:
  assumes "path_is_dir fs root" "path_is_dir fs (data_dir root)"
    "\<not> path_is_dir fs (mit_bih_dir root)"
  shows "find_dirs_mit_bih fs root s =
     (Inl (FileNotFoundError (''MIT-BIH directory not found: '' @ path_str (mit_bih_dir root))),
      s\<lparr>log_lines := log_lines s @
          validate_log fs (mit_bih_dir root) True ''MIT-BIH directory'',
        probed := probed s @ [root, root, data_dir root, data_dir root] @
          validate_probes fs (mit_bih_dir root)\<rparr>)"
  using assms by (simp add: find_dirs_mit_bih_def resolver_simps)

lemma mit_bih_success_x:
  assumes "path_is_dir fs root" "path_is_dir fs (data_dir root)"
    "path_is_dir fs (mit_bih_dir root)" "path_is_dir fs (x_mit_bih_dir root)"
  shows "find_dirs_mit_bih fs root s =
     (Inr (mit_bih_dir root, x_mit_bih_dir root),
      s\<lparr>log_lines := log_lines s @
          [(INFO, ''Successfully validated MIT-BIH dataset paths'')],
        probed := probed s @ [root, root, data_dir root, data_dir root,
          mit_bih_dir root, mit_bih_dir root, x_mit_bih_dir root, x_mit_bih_dir root]\<rparr>)"
  using assms by (simp add: find_dirs_mit_bih_def resolver_simps)

lemma mit_bih_fail_empty:
  assumes "path_is_dir fs root" "path_is_dir fs (data_dir root)"
    "path_is_dir fs (mit_bih_dir root)" "\<not> path_is_dir fs (x_mit_bih_dir root)"
    "path_glob_star fs (mit_bih_dir root) = []"
  shows "find_dirs_mit_bih fs root s =
     (Inl (FileNotFoundError
            (''No files found in MIT-BIH directory: '' @ path_str (mit_bih_dir root))),
      s\<lparr>log_lines := log_lines s @
          validate_log fs (x_mit_bih_dir root) True ''X-MITDB directory'' @
          [(WARNING, ''X-MITDB directory not found: '' @ path_str (x_mit_bih_dir root)),
           (INFO, ''Checking MIT-BIH root directory for files...'')],
        probed := probed s @ [root, root, data_dir root, data_dir root,
          mit_bih_dir root, mit_bih_dir root] @
          validate_probes fs (x_mit_bih_dir root) @ [mit_bih_dir root]\<rparr>)"
  using assms by (simp add: find_dirs_mit_bih_def resolver_simps)

lemma mit_bih_success_fallback:
  assumes "path_is_dir fs root" "path_is_dir fs (data_dir root)"
    "path_is_dir fs (mit_bih_dir root)" "\<not> path_is_dir fs (x_mit_bih_dir root)"
    "path_glob_star fs (mit_bih_dir root) \<noteq> []"
  shows "find_dirs_mit_bih fs root s =
     (Inr (mit_bih_dir root, x_mit_bih_dir root),
      s\<lparr>log_lines := log_lines s @
          validate_log fs (x_mit_bih_dir root) True ''X-MITDB directory'' @
          [(WARNING, ''X-MITDB directory not found: '' @ path_str (x_mit_bih_dir root)),
           (INFO, ''Checking MIT-BIH root directory for files...''),
           (INFO, ''Found '' @ str_nat (length (path_glob_star fs (mit_bih_dir root))) @
                  '' files/directories in MIT-BIH root directory''),
           (INFO, ''Successfully validated MIT-BIH dataset paths'')],
        probed := probed s @ [root, root, data_dir root, data_dir root,
          mit_bih_dir root, mit_bih_dir root] @
          validate_probes fs (x_mit_bih_dir root) @ [mit_bih_dir root]\<rparr>)"
  using assms by (simp add: find_dirs_mit_bih_def resolver_simps)

lemmas mit_bih_table = mit_bih_fail_root mit_bih_fail_data mit_bih_fail_dataset
  mit_bih_success_x mit_bih_fail_empty mit_bih_success_fallback

subsection \<open>The validator\<close>

text \<open>
  C1. For every path, expected kind and label, \<open>validate_path_exists\<close> returns true if and
  only if the path exists and matches the expected kind. When it does, nothing is logged;
  when it does not, one error line is logged, made of the label, the reason and the path,
  and false is returned. The function has no raising branch: its result is a boolean. In
  particular an existing regular file checked as a directory gives false.
\<close>

theorem validate_path_exists_contract:
  "fst (validate_path_exists fs p d n s) = matches_kind fs p d \<and>
   (matches_kind fs p d \<longrightarrow>
      log_lines (snd (validate_path_exists fs p d n s)) = log_lines s) \<and>
   (\<not> matches_kind fs p d \<longrightarrow>
      (\<exists>reason \<in> {ne_sushchestvuet, ne_yavlyaetsya_direktoriey, ne_yavlyaetsya_faylom}.
         log_lines (snd (validate_path_exists fs p d n s)) =
           log_lines s @ [(ERROR, n @ reason @ path_str p)])) \<and>
   (path_is_file fs p \<longrightarrow> \<not> fst (validate_path_exists fs p True n s))"
proof -
  have "path_is_file fs p \<Longrightarrow> \<not> path_is_dir fs p"
    by (auto simp: path_is_file_def path_is_dir_def split: option.splits node.splits)
  moreover have "\<not> matches_kind fs p d \<Longrightarrow>
      \<exists>reason \<in> {ne_sushchestvuet, ne_yavlyaetsya_direktoriey, ne_yavlyaetsya_faylom}.
        log_lines s @ validate_log fs p d n = log_lines s @ [(ERROR, n @ reason @ path_str p)]"
    using validate_log_failed [of fs p d n] by auto
  ultimately show ?thesis
    by (simp add: validate_path_exists_eq)
qed

theorem validate_path_exists_contract_witness:
  "path_is_file fs_example (china_code_file [''proj'']) \<and>
   \<not> matches_kind fs_example (china_code_file [''proj'']) True \<and>
   matches_kind fs_example (china_code_file [''proj'']) False \<and>
   \<not> fst (validate_path_exists fs_example (china_code_file [''proj'']) True
           ''Dataset directory'' s_init) \<and>
   fst (validate_path_exists fs_example (china_code_file [''proj'']) False ''Code file'' s_init) \<and>
   (\<exists>reason \<in> {ne_sushchestvuet, ne_yavlyaetsya_direktoriey, ne_yavlyaetsya_faylom}.
      log_lines (snd (validate_path_exists fs_example (china_code_file [''proj'']) True
                        ''Dataset directory'' s_init)) =
        log_lines s_init @
        [(ERROR, ''Dataset directory'' @ reason @ path_str (china_code_file [''proj'']))])"
proof -
  have f: "path_is_file fs_example (china_code_file [''proj''])"
    by (simp add: fs_example_def path_is_file_def)
  have nd: "\<not> path_is_dir fs_example (china_code_file [''proj''])"
    by (simp add: fs_example_def path_is_dir_def)
  show ?thesis
    using f nd
      validate_path_exists_contract [of fs_example "china_code_file [''proj'']" True
        "''Dataset directory''" s_init]
      validate_path_exists_contract [of fs_example "china_code_file [''proj'']" False
        "''Code file''" s_init]
    by simp
qed

subsection \<open>The China resolver\<close>

text \<open>
  C6. When the project root, \<open>data/\<close>, \<open>data/china_12_lead/\<close> and its \<open>records/\<close> are
  directories and \<open>metadata.csv\<close> and \<open>code.csv\<close> are regular files,
  \<open>find_csv_dir_files_china\<close> queries exactly these six paths in this order (each twice:
  \<open>exists\<close>, then \<open>is_dir\<close> or \<open>is_file\<close>), logs the success line and returns the triple
  (records directory, metadata file, code file) under the given root.
\<close>

theorem find_csv_dir_files_china_full_layout:
  assumes "path_is_dir fs root"
    and "path_is_dir fs (data_dir root)"
    and "path_is_dir fs (china_dataset_dir root)"
    and "path_is_dir fs (china_records_dir root)"
    and "path_is_file fs (china_metadata_file root)"
    and "path_is_file fs (china_code_file root)"
  shows "find_csv_dir_files_china fs root s =
     (Inr (root @ [''data'', ''china_12_lead'', ''records''],
           root @ [''data'', ''china_12_lead'', ''metadata.csv''],
           root @ [''data'', ''china_12_lead'', ''code.csv'']),
      s\<lparr>log_lines := log_lines s @
           [(INFO, ''Successfully validated all paths for china_12_lead dataset'')],
        probed := probed s @
           [root, root,
            root @ [''data''], root @ [''data''],
            root @ [''data'', ''china_12_lead''], root @ [''data'', ''china_12_lead''],
            root @ [''data'', ''china_12_lead'', ''records''],
            root @ [''data'', ''china_12_lead'', ''records''],
            root @ [''data'', ''china_12_lead'', ''metadata.csv''],
            root @ [''data'', ''china_12_lead'', ''metadata.csv''],
            root @ [''data'', ''china_12_lead'', ''code.csv''],
            root @ [''data'', ''china_12_lead'', ''code.csv'']]\<rparr>)"
  using assms by (rule china_success)

theorem find_csv_dir_files_china_full_layout_witness:
  "path_is_dir fs_example [''proj''] \<and>
   path_is_dir fs_example [''proj'', ''data''] \<and>
   path_is_dir fs_example [''proj'', ''data'', ''china_12_lead''] \<and>
   path_is_dir fs_example [''proj'', ''data'', ''china_12_lead'', ''records''] \<and>
   path_is_file fs_example [''proj'', ''data'', ''china_12_lead'', ''metadata.csv''] \<and>
   path_is_file fs_example [''proj'', ''data'', ''china_12_lead'', ''code.csv''] \<and>
   fst (find_csv_dir_files_china fs_example [''proj''] s_init) =
     Inr ([''proj'', ''data'', ''china_12_lead'', ''records''],
          [''proj'', ''data'', ''china_12_lead'', ''metadata.csv''],
          [''proj'', ''data'', ''china_12_lead'', ''code.csv''])"
  using find_csv_dir_files_china_full_layout [of fs_example "[''proj'']" s_init]
  by (simp add: fs_example_def fs_query_defs)

subsection \<open>The PTB-XL resolver\<close>

text \<open>
  C3. When the project root, \<open>data/\<close> and \<open>data/ptb_xl/\<close> are directories: if at least one of
  \<open>records100/\<close> and \<open>records500/\<close> is a directory, \<open>find_csv_dir_files_ptb_xl\<close> passes the
  records check, that is, it goes on to query the metadata file and its outcome is decided
  by the metadata and code files alone; if neither is a directory it raises the
  missing-path error that names the dataset directory and the two paths checked.
\<close>

theorem find_csv_dir_files_ptb_xl_records_check:
  assumes "path_is_dir fs root"
    and "path_is_dir fs (data_dir root)"
    and "path_is_dir fs (ptb_xl_dataset_dir root)"
  shows "(path_is_dir fs (records100_dir root) \<or> path_is_dir fs (records500_dir root) \<longrightarrow>
            fst (find_csv_dir_files_ptb_xl fs root s) =
              (if \<not> path_is_file fs (ptb_xl_metadata_file root)
               then Inl (FileNotFoundError (''Metadata file not found: '' @
                      path_str (ptb_xl_metadata_file root)))
               else if \<not> path_is_file fs (ptb_xl_code_file root)
               then Inl (FileNotFoundError (''Code file not found: '' @
                      path_str (ptb_xl_code_file root)))
               else Inr (records100_dir root, records500_dir root,
                         ptb_xl_metadata_file root, ptb_xl_code_file root)) \<and>
            ptb_xl_metadata_file root
              \<in> set (new_probes s (snd (find_csv_dir_files_ptb_xl fs root s)))) \<and>
         (\<not> path_is_dir fs (records100_dir root) \<and> \<not> path_is_dir fs (records500_dir root) \<longrightarrow>
            fst (find_csv_dir_files_ptb_xl fs root s) =
              Inl (FileNotFoundError
                (''No record directories found in '' @ path_str (ptb_xl_dataset_dir root) @
                 ''. Checked: '' @ path_str (records100_dir root) @
                 '', '' @ path_str (records500_dir root))))"
proof (intro conjI impI)
  assume r: "path_is_dir fs (records100_dir root) \<or> path_is_dir fs (records500_dir root)"
  show "fst (find_csv_dir_files_ptb_xl fs root s) =
              (if \<not> path_is_file fs (ptb_xl_metadata_file root)
               then Inl (FileNotFoundError (''Metadata file not found: '' @
                      path_str (ptb_xl_metadata_file root)))
               else if \<not> path_is_file fs (ptb_xl_code_file root)
               then Inl (FileNotFoundError (''Code file not found: '' @
                      path_str (ptb_xl_code_file root)))
               else Inr (records100_dir root, records500_dir root,
                         ptb_xl_metadata_file root, ptb_xl_code_file root))"
    using assms r
    by (simp add: ptb_xl_fail_metadata ptb_xl_fail_code ptb_xl_success)
  show "ptb_xl_metadata_file root
          \<in> set (new_probes s (snd (find_csv_dir_files_ptb_xl fs root s)))"
  proof (cases "path_is_file fs (ptb_xl_metadata_file root)")
    case False
    then show ?thesis
      using assms r by (simp add: ptb_xl_fail_metadata new_probes_def validate_probes_def)
  next
    case m: True
    show ?thesis
    proof (cases "path_is_file fs (ptb_xl_code_file root)")
      case False
      then show ?thesis
        using assms r m by (simp add: ptb_xl_fail_code new_probes_def)
    next
      case True
      then show ?thesis
        using assms r m by (simp add: ptb_xl_success new_probes_def)
    qed
  qed
next
  assume "\<not> path_is_dir fs (records100_dir root) \<and> \<not> path_is_dir fs (records500_dir root)"
  then show "fst (find_csv_dir_files_ptb_xl fs root s) =
              Inl (FileNotFoundError
                (''No record directories found in '' @ path_str (ptb_xl_dataset_dir root) @
                 ''. Checked: '' @ path_str (records100_dir root) @
                 '', '' @ path_str (records500_dir root)))"
    using assms by (simp add: ptb_xl_fail_records)
qed

theorem find_csv_dir_files_ptb_xl_records_check_witness:
  "path_is_dir fs_example (records100_dir [''proj'']) \<and>
   \<not> path_is_dir fs_example (records500_dir [''proj'']) \<and>
   fst (find_csv_dir_files_ptb_xl fs_example [''proj''] s_init) =
     Inr (records100_dir [''proj''], records500_dir [''proj''],
          ptb_xl_metadata_file [''proj''], ptb_xl_code_file [''proj'']) \<and>
   \<not> path_is_dir fs_example (records100_dir [''bare'']) \<and>
   \<not> path_is_dir fs_example (records500_dir [''bare'']) \<and>
   fst (find_csv_dir_files_ptb_xl fs_example [''bare''] s_init) =
     Inl (FileNotFoundError
           (''No record directories found in '' @ path_str (ptb_xl_dataset_dir [''bare'']) @
            ''. Checked: '' @ path_str (records100_dir [''bare'']) @
            '', '' @ path_str (records500_dir [''bare''])))"
  using find_csv_dir_files_ptb_xl_records_check [of fs_example "[''proj'']" s_init]
    find_csv_dir_files_ptb_xl_records_check [of fs_example "[''bare'']" s_init]
  by (simp add: fs_example_def fs_query_defs)

text \<open>
  C4. A successful \<open>find_csv_dir_files_ptb_xl\<close> returns the four paths
  \<open>data/ptb_xl/records100\<close>, \<open>data/ptb_xl/records500\<close>, \<open>data/ptb_xl/ptbxl_database.csv\<close> and
  \<open>data/ptb_xl/scp_statements.csv\<close> under the root, whether or not each records directory
  exists. In particular, with \<open>records100/\<close> present and \<open>records500/\<close> absent the call
  succeeds and the second component is the \<open>records500\<close> path, which does not exist.
\<close>

theorem find_csv_dir_files_ptb_xl_returns_paths_verbatim:
  "(fst (find_csv_dir_files_ptb_xl fs root s) = Inr t \<longrightarrow>
      t = (root @ [''data'', ''ptb_xl'', ''records100''],
           root @ [''data'', ''ptb_xl'', ''records500''],
           root @ [''data'', ''ptb_xl'', ''ptbxl_database.csv''],
           root @ [''data'', ''ptb_xl'', ''scp_statements.csv''])) \<and>
   (path_is_dir fs root \<and> path_is_dir fs (data_dir root) \<and>
    path_is_dir fs (ptb_xl_dataset_dir root) \<and>
    path_is_dir fs (records100_dir root) \<and>
    \<not> path_exists fs (records500_dir root) \<and>
    path_is_file fs (ptb_xl_metadata_file root) \<and>
    path_is_file fs (ptb_xl_code_file root) \<longrightarrow>
      (\<exists>a b c d. fst (find_csv_dir_files_ptb_xl fs root s) = Inr (a, b, c, d) \<and>
         b = root @ [''data'', ''ptb_xl'', ''records500''] \<and> \<not> path_exists fs b))"
proof (intro conjI impI)
  assume ok: "fst (find_csv_dir_files_ptb_xl fs root s) = Inr t"
  consider (root) "\<not> path_is_dir fs root"
    | (data) "path_is_dir fs root" "\<not> path_is_dir fs (data_dir root)"
    | (dataset) "path_is_dir fs root" "path_is_dir fs (data_dir root)"
        "\<not> path_is_dir fs (ptb_xl_dataset_dir root)"
    | (records) "path_is_dir fs root" "path_is_dir fs (data_dir root)"
        "path_is_dir fs (ptb_xl_dataset_dir root)"
        "\<not> path_is_dir fs (records100_dir root)" "\<not> path_is_dir fs (records500_dir root)"
    | (metadata) "path_is_dir fs root" "path_is_dir fs (data_dir root)"
        "path_is_dir fs (ptb_xl_dataset_dir root)"
        "path_is_dir fs (records100_dir root) \<or> path_is_dir fs (records500_dir root)"
        "\<not> path_is_file fs (ptb_xl_metadata_file root)"
    | (code) "path_is_dir fs root" "path_is_dir fs (data_dir root)"
        "path_is_dir fs (ptb_xl_dataset_dir root)"
        "path_is_dir fs (records100_dir root) \<or> path_is_dir fs (records500_dir root)"
        "path_is_file fs (ptb_xl_metadata_file root)"
        "\<not> path_is_file fs (ptb_xl_code_file root)"
    | (success) "path_is_dir fs root" "path_is_dir fs (data_dir root)"
        "path_is_dir fs (ptb_xl_dataset_dir root)"
        "path_is_dir fs (records100_dir root) \<or> path_is_dir fs (records500_dir root)"
        "path_is_file fs (ptb_xl_metadata_file root)"
        "path_is_file fs (ptb_xl_code_file root)"
    by blast
  then show "t = (root @ [''data'', ''ptb_xl'', ''records100''],
           root @ [''data'', ''ptb_xl'', ''records500''],
           root @ [''data'', ''ptb_xl'', ''ptbxl_database.csv''],
           root @ [''data'', ''ptb_xl'', ''scp_statements.csv''])"
    using ok by cases (simp_all add: ptb_xl_table)
next
  assume "path_is_dir fs root \<and> path_is_dir fs (data_dir root) \<and>
    path_is_dir fs (ptb_xl_dataset_dir root) \<and>
    path_is_dir fs (records100_dir root) \<and>
    \<not> path_exists fs (records500_dir root) \<and>
    path_is_file fs (ptb_xl_metadata_file root) \<and>
    path_is_file fs (ptb_xl_code_file root)"
  then show "\<exists>a b c d. fst (find_csv_dir_files_ptb_xl fs root s) = Inr (a, b, c, d) \<and>
         b = root @ [''data'', ''ptb_xl'', ''records500''] \<and> \<not> path_exists fs b"
    by (simp add: ptb_xl_success)
qed

theorem find_csv_dir_files_ptb_xl_returns_paths_verbatim_witness:
  "path_is_dir fs_example (records100_dir [''proj'']) \<and>
   \<not> path_exists fs_example (records500_dir [''proj'']) \<and>
   (\<exists>a b c d. fst (find_csv_dir_files_ptb_xl fs_example [''proj''] s_init) = Inr (a, b, c, d) \<and>
      b = [''proj'', ''data'', ''ptb_xl'', ''records500''] \<and> \<not> path_exists fs_example b)"
  using find_csv_dir_files_ptb_xl_returns_paths_verbatim [of fs_example "[''proj'']" s_init]
  by (simp add: fs_example_def fs_query_defs)

subsection \<open>The MIT-BIH resolver\<close>

lemma glob_set:
  assumes "path_is_dir fs p"
  shows "set (path_glob_star fs p) = {p @ [name] | name. path_exists fs (p @ [name])}"
proof -
  from assms obtain es where es: "lookup fs p = Some (Dir es)"
    by (auto simp: path_is_dir_def split: option.splits node.splits)
  have "path_exists fs (p @ [name]) \<longleftrightarrow> name \<in> fst ` set es" for name
    using es map_of_eq_None_iff [of es name]
    by (auto simp: path_exists_def lookup_append split: option.splits)
  then show ?thesis
    using es by (auto simp: path_glob_star_def)
qed

lemma mit_bih_glob_nonempty:
  "path_glob_star fs (mit_bih_dir root) \<noteq> [] \<longleftrightarrow>
     (\<exists>name. path_exists fs (mit_bih_dir root @ [name]))"
  using glob_nonempty_iff [of fs "mit_bih_dir root"] by simp

text \<open>
  C5. When the project root, \<open>data/\<close> and \<open>data/mit_bih/\<close> are directories: if \<open>x_mitdb/\<close> is a
  directory (empty or not), \<open>find_dirs_mit_bih\<close> returns the pair (\<open>mit_bih\<close> directory,
  \<open>x_mitdb\<close> path); if \<open>x_mitdb\<close> is absent and \<open>mit_bih/\<close> has at least one entry, it returns
  the same pair, the absent \<open>x_mitdb\<close> path included; if \<open>x_mitdb\<close> is absent and \<open>mit_bih/\<close>
  has no entry, it raises the missing-path error.
\<close>

theorem find_dirs_mit_bih_cases:
  assumes "path_is_dir fs root"
    and "path_is_dir fs (data_dir root)"
    and "path_is_dir fs (mit_bih_dir root)"
  shows "(path_is_dir fs (x_mit_bih_dir root) \<longrightarrow>
            fst (find_dirs_mit_bih fs root s) =
              Inr (root @ [''data'', ''mit_bih''], root @ [''data'', ''mit_bih'', ''x_mitdb''])) \<and>
         (\<not> path_exists fs (x_mit_bih_dir root) \<and>
          (\<exists>name. path_exists fs (mit_bih_dir root @ [name])) \<longrightarrow>
            fst (find_dirs_mit_bih fs root s) =
              Inr (root @ [''data'', ''mit_bih''], root @ [''data'', ''mit_bih'', ''x_mitdb'']) \<and>
            \<not> path_exists fs (root @ [''data'', ''mit_bih'', ''x_mitdb''])) \<and>
         (\<not> path_exists fs (x_mit_bih_dir root) \<and>
          \<not> (\<exists>name. path_exists fs (mit_bih_dir root @ [name])) \<longrightarrow>
            fst (find_dirs_mit_bih fs root s) =
              Inl (FileNotFoundError (''No files found in MIT-BIH directory: '' @
                     path_str (mit_bih_dir root))))"
proof -
  have nd: "\<not> path_exists fs (x_mit_bih_dir root) \<Longrightarrow> \<not> path_is_dir fs (x_mit_bih_dir root)"
    using path_is_dir_exists by blast
  show ?thesis
  proof (intro conjI impI)
    assume "path_is_dir fs (x_mit_bih_dir root)"
    then show "fst (find_dirs_mit_bih fs root s) =
        Inr (root @ [''data'', ''mit_bih''], root @ [''data'', ''mit_bih'', ''x_mitdb''])"
      using assms by (simp add: mit_bih_success_x)
  next
    assume a: "\<not> path_exists fs (x_mit_bih_dir root) \<and>
               (\<exists>name. path_exists fs (mit_bih_dir root @ [name]))"
    then have "path_glob_star fs (mit_bih_dir root) \<noteq> []"
      using mit_bih_glob_nonempty [of fs root] by blast
    then show "fst (find_dirs_mit_bih fs root s) =
        Inr (root @ [''data'', ''mit_bih''], root @ [''data'', ''mit_bih'', ''x_mitdb''])"
      using assms a nd by (simp add: mit_bih_success_fallback)
    show "\<not> path_exists fs (root @ [''data'', ''mit_bih'', ''x_mitdb''])"
      using a by simp
  next
    assume a: "\<not> path_exists fs (x_mit_bih_dir root) \<and>
               \<not> (\<exists>name. path_exists fs (mit_bih_dir root @ [name]))"
    then have "path_glob_star fs (mit_bih_dir root) = []"
      using mit_bih_glob_nonempty [of fs root] by blast
    then show "fst (find_dirs_mit_bih fs root s) =
        Inl (FileNotFoundError (''No files found in MIT-BIH directory: '' @
               path_str (mit_bih_dir root)))"
      using assms a nd by (simp add: mit_bih_fail_empty)
  qed
qed

theorem find_dirs_mit_bih_cases_witness:
  "\<not> path_exists fs_example (x_mit_bih_dir [''proj'']) \<and>
   path_exists fs_example (mit_bih_dir [''proj''] @ [''.hidden'']) \<and>
   fst (find_dirs_mit_bih fs_example [''proj''] s_init) =
     Inr ([''proj'', ''data'', ''mit_bih''], [''proj'', ''data'', ''mit_bih'', ''x_mitdb'']) \<and>
   path_is_dir fs_example (x_mit_bih_dir [''full'']) \<and>
   fst (find_dirs_mit_bih fs_example [''full''] s_init) =
     Inr ([''full'', ''data'', ''mit_bih''], [''full'', ''data'', ''mit_bih'', ''x_mitdb'']) \<and>
   \<not> path_exists fs_example (x_mit_bih_dir [''bare'']) \<and>
   path_glob_star fs_example (mit_bih_dir [''bare'']) = [] \<and>
   fst (find_dirs_mit_bih fs_example [''bare''] s_init) =
     Inl (FileNotFoundError (''No files found in MIT-BIH directory: '' @
            path_str (mit_bih_dir [''bare''])))"
proof -
  have e: "path_exists fs_example (mit_bih_dir [''proj''] @ [''.hidden''])"
    by (simp add: fs_example_def fs_query_defs)
  have n: "\<not> (\<exists>name. path_exists fs_example (mit_bih_dir [''bare''] @ [name]))"
    using mit_bih_glob_nonempty [of fs_example "[''bare'']"]
    by (simp add: fs_example_def fs_query_defs)
  show ?thesis
    using e n find_dirs_mit_bih_cases [of fs_example "[''proj'']" s_init]
      find_dirs_mit_bih_cases [of fs_example "[''full'']" s_init]
      find_dirs_mit_bih_cases [of fs_example "[''bare'']" s_init]
    by (auto simp: fs_example_def fs_query_defs)
qed

text \<open>
  C10, as stated: in the fallback branch \<open>glob("*")\<close> skips names that begin with a dot, so a
  \<open>mit_bih/\<close> holding only hidden entries (and no \<open>x_mitdb/\<close>) raises the missing-path error.
  It does not: \<open>/proj/data/mit_bih\<close> of the example holds the single entry \<open>.hidden\<close>, the
  listing contains it and the call succeeds.
\<close>

theorem find_dirs_mit_bih_hidden_entry_counts:
  "path_glob_star fs_example [''proj'', ''data'', ''mit_bih''] =
     [[''proj'', ''data'', ''mit_bih'', ''.hidden'']] \<and>
   \<not> path_exists fs_example [''proj'', ''data'', ''mit_bih'', ''x_mitdb''] \<and>
   fst (find_dirs_mit_bih fs_example [''proj''] s_init) =
     Inr ([''proj'', ''data'', ''mit_bih''], [''proj'', ''data'', ''mit_bih'', ''x_mitdb''])"
proof -
  have g: "path_glob_star fs_example (mit_bih_dir [''proj'']) =
           [[''proj'', ''data'', ''mit_bih'', ''.hidden'']]"
    by (simp add: fs_example_def fs_query_defs)
  have d: "path_is_dir fs_example [''proj'']" "path_is_dir fs_example (data_dir [''proj''])"
    "path_is_dir fs_example (mit_bih_dir [''proj''])"
    "\<not> path_is_dir fs_example (x_mit_bih_dir [''proj''])"
    "\<not> path_exists fs_example (x_mit_bih_dir [''proj''])"
    by (simp_all add: fs_example_def fs_query_defs)
  have "path_glob_star fs_example (mit_bih_dir [''proj'']) \<noteq> []"
    using g by simp
  from mit_bih_success_fallback [OF d(1-4) this, of s_init] g d(5)
  show ?thesis by simp
qed

text \<open>
  C10, amended: in the fallback branch (\<open>x_mitdb/\<close> absent) the non-emptiness check lists
  \<open>mit_bih/\<close> with pathlib's \<open>glob("*")\<close>, which yields every entry of the directory,
  dot-prefixed names included. So a \<open>mit_bih/\<close> with at least one entry, hidden or not,
  succeeds, and the missing-path error is raised exactly when \<open>mit_bih/\<close> has no entry at all.
\<close>

theorem find_dirs_mit_bih_fallback_lists_all_entries:
  assumes "path_is_dir fs root"
    and "path_is_dir fs (data_dir root)"
    and "path_is_dir fs (mit_bih_dir root)"
    and "\<not> path_exists fs (x_mit_bih_dir root)"
  shows "(path_exists fs (mit_bih_dir root @ [CHR ''.'' # name]) \<longrightarrow>
            mit_bih_dir root @ [CHR ''.'' # name] \<in> set (path_glob_star fs (mit_bih_dir root)) \<and>
            fst (find_dirs_mit_bih fs root s) = Inr (mit_bih_dir root, x_mit_bih_dir root)) \<and>
         ((\<exists>e. fst (find_dirs_mit_bih fs root s) = Inl e) \<longleftrightarrow>
            \<not> (\<exists>entry. path_exists fs (mit_bih_dir root @ [entry])))"
proof -
  have nd: "\<not> path_is_dir fs (x_mit_bih_dir root)"
    using assms(4) path_is_dir_exists by blast
  have ok: "path_glob_star fs (mit_bih_dir root) \<noteq> [] \<Longrightarrow>
            fst (find_dirs_mit_bih fs root s) = Inr (mit_bih_dir root, x_mit_bih_dir root)"
    using assms(1-3) nd by (simp add: mit_bih_success_fallback)
  have bad: "path_glob_star fs (mit_bih_dir root) = [] \<Longrightarrow>
            \<exists>e. fst (find_dirs_mit_bih fs root s) = Inl e"
    using assms(1-3) nd by (simp add: mit_bih_fail_empty)
  show ?thesis
  proof (intro conjI impI)
    assume h: "path_exists fs (mit_bih_dir root @ [CHR ''.'' # name])"
    then show "mit_bih_dir root @ [CHR ''.'' # name] \<in> set (path_glob_star fs (mit_bih_dir root))"
      using glob_set [OF assms(3)] by blast
    from h have "path_glob_star fs (mit_bih_dir root) \<noteq> []"
      using mit_bih_glob_nonempty [of fs root] by blast
    then show "fst (find_dirs_mit_bih fs root s) = Inr (mit_bih_dir root, x_mit_bih_dir root)"
      by (rule ok)
  next
    show "(\<exists>e. fst (find_dirs_mit_bih fs root s) = Inl e) \<longleftrightarrow>
            \<not> (\<exists>entry. path_exists fs (mit_bih_dir root @ [entry]))"
      using ok bad mit_bih_glob_nonempty [of fs root] by (metis Inl_Inr_False)
  qed
qed

theorem find_dirs_mit_bih_fallback_lists_all_entries_witness:
  "path_is_dir fs_example [''proj''] \<and> path_is_dir fs_example (data_dir [''proj'']) \<and>
   path_is_dir fs_example (mit_bih_dir [''proj'']) \<and>
   \<not> path_exists fs_example (x_mit_bih_dir [''proj'']) \<and>
   path_exists fs_example (mit_bih_dir [''proj''] @ [CHR ''.'' # ''hidden'']) \<and>
   mit_bih_dir [''proj''] @ [CHR ''.'' # ''hidden'']
     \<in> set (path_glob_star fs_example (mit_bih_dir [''proj''])) \<and>
   fst (find_dirs_mit_bih fs_example [''proj''] s_init) =
     Inr (mit_bih_dir [''proj''], x_mit_bih_dir [''proj''])"
  using find_dirs_mit_bih_fallback_lists_all_entries [of fs_example "[''proj'']" "''hidden''" s_init]
  by (simp add: fs_example_def fs_query_defs)

subsection \<open>The dispatch wrapper\<close>

lemma lower_names:
  "lower ''china'' = ''china''" "lower ''ptb_xl'' = ''ptb_xl''" "lower ''mit_bih'' = ''mit_bih''"
  by (simp_all add: lower_def lower_char_def)

lemma safe_find_paths_fst:
  "fst (safe_find_paths fs n root s) = fst (safe_find_paths_try fs n root s)"
  by (simp add: safe_find_paths_def split: prod.splits sum.splits)

lemma safe_find_paths_try_lower:
  assumes "lower n \<in> {''china'', ''ptb_xl'', ''mit_bih''}"
  shows "safe_find_paths_try fs n root s = safe_find_paths_try fs (lower n) root s"
proof -
  consider "lower n = ''china''" | "lower n = ''ptb_xl''" | "lower n = ''mit_bih''"
    using assms by blast
  then show ?thesis
    by cases (simp_all add: safe_find_paths_try_def lower_names)
qed

text \<open>
  C7. \<open>safe_find_paths\<close> dispatches on the lowered name: a name whose lowering is one of
  \<open>china\<close>, \<open>ptb_xl\<close>, \<open>mit_bih\<close> gives the same result, value or error, as the lowercase name
  itself, and any other name raises the invalid-argument error.
\<close>

theorem safe_find_paths_case_insensitive:
  "(lower n \<in> {''china'', ''ptb_xl'', ''mit_bih''} \<longrightarrow>
      fst (safe_find_paths fs n root s) = fst (safe_find_paths fs (lower n) root s)) \<and>
   (lower n \<notin> {''china'', ''ptb_xl'', ''mit_bih''} \<longrightarrow>
      fst (safe_find_paths fs n root s) =
        Inl (ValueError
              (''Unknown dataset name: '' @ n @ ''. '' @
               ''Available: '' @ [CHR 0x27] @ ''china'' @ [CHR 0x27] @ '', '' @
               [CHR 0x27] @ ''ptb_xl'' @ [CHR 0x27] @ '', '' @
               [CHR 0x27] @ ''mit_bih'' @ [CHR 0x27])))"
proof (intro conjI impI)
  assume "lower n \<in> {''china'', ''ptb_xl'', ''mit_bih''}"
  then show "fst (safe_find_paths fs n root s) = fst (safe_find_paths fs (lower n) root s)"
    using safe_find_paths_try_lower [of n fs root s] by (simp add: safe_find_paths_fst)
next
  assume "lower n \<notin> {''china'', ''ptb_xl'', ''mit_bih''}"
  then show "fst (safe_find_paths fs n root s) =
        Inl (ValueError
              (''Unknown dataset name: '' @ n @ ''. '' @
               ''Available: '' @ [CHR 0x27] @ ''china'' @ [CHR 0x27] @ '', '' @
               [CHR 0x27] @ ''ptb_xl'' @ [CHR 0x27] @ '', '' @
               [CHR 0x27] @ ''mit_bih'' @ [CHR 0x27]))"
    by (simp add: safe_find_paths_fst safe_find_paths_try_def)
qed

theorem safe_find_paths_case_insensitive_witness:
  "lower ''CHINA'' = ''china'' \<and>
   fst (safe_find_paths fs_example ''CHINA'' [''proj''] s_init) =
     fst (safe_find_paths fs_example ''china'' [''proj''] s_init) \<and>
   lower ''unknown'' \<notin> {''china'', ''ptb_xl'', ''mit_bih''} \<and>
   fst (safe_find_paths fs_example ''unknown'' [''proj''] s_init) =
     Inl (ValueError
           (''Unknown dataset name: unknown. Available: '' @ [CHR 0x27] @ ''china'' @
            [CHR 0x27] @ '', '' @ [CHR 0x27] @ ''ptb_xl'' @ [CHR 0x27] @ '', '' @
            [CHR 0x27] @ ''mit_bih'' @ [CHR 0x27]))"
  using safe_find_paths_case_insensitive [of "''CHINA''" fs_example "[''proj'']" s_init]
    safe_find_paths_case_insensitive [of "''unknown''" fs_example "[''proj'']" s_init]
  by (simp add: lower_def lower_char_def)

subsection \<open>Every call appends the same lines and queries and gives the same result\<close>

lemma china_uniform:
  "\<exists>r L P. \<forall>s. find_csv_dir_files_china fs root s =
     (r, s\<lparr>log_lines := log_lines s @ L, probed := probed s @ P\<rparr>)"
proof -
  consider (1) "\<not> path_is_dir fs root"
    | (2) "path_is_dir fs root" "\<not> path_is_dir fs (data_dir root)"
    | (3) "path_is_dir fs root" "path_is_dir fs (data_dir root)"
        "\<not> path_is_dir fs (china_dataset_dir root)"
    | (4) "path_is_dir fs root" "path_is_dir fs (data_dir root)"
        "path_is_dir fs (china_dataset_dir root)" "\<not> path_is_dir fs (china_records_dir root)"
    | (5) "path_is_dir fs root" "path_is_dir fs (data_dir root)"
        "path_is_dir fs (china_dataset_dir root)" "path_is_dir fs (china_records_dir root)"
        "\<not> path_is_file fs (china_metadata_file root)"
    | (6) "path_is_dir fs root" "path_is_dir fs (data_dir root)"
        "path_is_dir fs (china_dataset_dir root)" "path_is_dir fs (china_records_dir root)"
        "path_is_file fs (china_metadata_file root)" "\<not> path_is_file fs (china_code_file root)"
    | (7) "path_is_dir fs root" "path_is_dir fs (data_dir root)"
        "path_is_dir fs (china_dataset_dir root)" "path_is_dir fs (china_records_dir root)"
        "path_is_file fs (china_metadata_file root)" "path_is_file fs (china_code_file root)"
    by blast
  then show ?thesis
  proof cases
    case 1 show ?thesis by (intro exI allI) (rule china_fail_root [OF 1])
  next
    case 2 show ?thesis by (intro exI allI) (rule china_fail_data [OF 2])
  next
    case 3 show ?thesis by (intro exI allI) (rule china_fail_dataset [OF 3])
  next
    case 4 show ?thesis by (intro exI allI) (rule china_fail_records [OF 4])
  next
    case 5 show ?thesis by (intro exI allI) (rule china_fail_metadata [OF 5])
  next
    case 6 show ?thesis by (intro exI allI) (rule china_fail_code [OF 6])
  next
    case 7 show ?thesis by (intro exI allI) (rule china_success [OF 7])
  qed
qed

lemma ptb_xl_uniform:
  "\<exists>r L P. \<forall>s. find_csv_dir_files_ptb_xl fs root s =
     (r, s\<lparr>log_lines := log_lines s @ L, probed := probed s @ P\<rparr>)"
proof -
  consider (1) "\<not> path_is_dir fs root"
    | (2) "path_is_dir fs root" "\<not> path_is_dir fs (data_dir root)"
    | (3) "path_is_dir fs root" "path_is_dir fs (data_dir root)"
        "\<not> path_is_dir fs (ptb_xl_dataset_dir root)"
    | (4) "path_is_dir fs root" "path_is_dir fs (data_dir root)"
        "path_is_dir fs (ptb_xl_dataset_dir root)"
        "\<not> path_is_dir fs (records100_dir root)" "\<not> path_is_dir fs (records500_dir root)"
    | (5) "path_is_dir fs root" "path_is_dir fs (data_dir root)"
        "path_is_dir fs (ptb_xl_dataset_dir root)"
        "path_is_dir fs (records100_dir root) \<or> path_is_dir fs (records500_dir root)"
        "\<not> path_is_file fs (ptb_xl_metadata_file root)"
    | (6) "path_is_dir fs root" "path_is_dir fs (data_dir root)"
        "path_is_dir fs (ptb_xl_dataset_dir root)"
        "path_is_dir fs (records100_dir root) \<or> path_is_dir fs (records500_dir root)"
        "path_is_file fs (ptb_xl_metadata_file root)"
        "\<not> path_is_file fs (ptb_xl_code_file root)"
    | (7) "path_is_dir fs root" "path_is_dir fs (data_dir root)"
        "path_is_dir fs (ptb_xl_dataset_dir root)"
        "path_is_dir fs (records100_dir root) \<or> path_is_dir fs (records500_dir root)"
        "path_is_file fs (ptb_xl_metadata_file root)"
        "path_is_file fs (ptb_xl_code_file root)"
    by blast
  then show ?thesis
  proof cases
    case 1 show ?thesis by (intro exI allI) (rule ptb_xl_fail_root [OF 1])
  next
    case 2 show ?thesis by (intro exI allI) (rule ptb_xl_fail_data [OF 2])
  next
    case 3 show ?thesis by (intro exI allI) (rule ptb_xl_fail_dataset [OF 3])
  next
    case 4 show ?thesis by (intro exI allI) (rule ptb_xl_fail_records [OF 4])
  next
    case 5 show ?thesis by (intro exI allI) (rule ptb_xl_fail_metadata [OF 5])
  next
    case 6 show ?thesis by (intro exI allI) (rule ptb_xl_fail_code [OF 6])
  next
    case 7 show ?thesis by (intro exI allI) (rule ptb_xl_success [OF 7])
  qed
qed

lemma mit_bih_uniform:
  "\<exists>r L P. \<forall>s. find_dirs_mit_bih fs root s =
     (r, s\<lparr>log_lines := log_lines s @ L, probed := probed s @ P\<rparr>)"
proof -
  consider (1) "\<not> path_is_dir fs root"
    | (2) "path_is_dir fs root" "\<not> path_is_dir fs (data_dir root)"
    | (3) "path_is_dir fs root" "path_is_dir fs (data_dir root)"
        "\<not> path_is_dir fs (mit_bih_dir root)"
    | (4) "path_is_dir fs root" "path_is_dir fs (data_dir root)"
        "path_is_dir fs (mit_bih_dir root)" "path_is_dir fs (x_mit_bih_dir root)"
    | (5) "path_is_dir fs root" "path_is_dir fs (data_dir root)"
        "path_is_dir fs (mit_bih_dir root)" "\<not> path_is_dir fs (x_mit_bih_dir root)"
        "path_glob_star fs (mit_bih_dir root) = []"
    | (6) "path_is_dir fs root" "path_is_dir fs (data_dir root)"
        "path_is_dir fs (mit_bih_dir root)" "\<not> path_is_dir fs (x_mit_bih_dir root)"
        "path_glob_star fs (mit_bih_dir root) \<noteq> []"
    by blast
  then show ?thesis
  proof cases
    case 1 show ?thesis by (intro exI allI) (rule mit_bih_fail_root [OF 1])
  next
    case 2 show ?thesis by (intro exI allI) (rule mit_bih_fail_data [OF 2])
  next
    case 3 show ?thesis by (intro exI allI) (rule mit_bih_fail_dataset [OF 3])
  next
    case 4 show ?thesis by (intro exI allI) (rule mit_bih_success_x [OF 4])
  next
    case 5 show ?thesis by (intro exI allI) (rule mit_bih_fail_empty [OF 5])
  next
    case 6 show ?thesis by (intro exI allI) (rule mit_bih_success_fallback [OF 6])
  qed
qed

lemma safe_find_paths_try_uniform:
  "\<exists>r L P. \<forall>s. safe_find_paths_try fs n root s =
     (r, s\<lparr>log_lines := log_lines s @ L, probed := probed s @ P\<rparr>)"
proof -
  consider (china) "lower n = ''china''" | (ptb_xl) "lower n = ''ptb_xl''"
    | (mit_bih) "lower n = ''mit_bih''"
    | (unknown) "lower n \<noteq> ''china''" "lower n \<noteq> ''ptb_xl''" "lower n \<noteq> ''mit_bih''"
    by blast
  then show ?thesis
  proof cases
    case china
    obtain r L P where "\<forall>s. find_csv_dir_files_china fs root s =
        (r, s\<lparr>log_lines := log_lines s @ L, probed := probed s @ P\<rparr>)"
      using china_uniform by blast
    then have "\<forall>s. safe_find_paths_try fs n root s =
        (case r of Inl e \<Rightarrow> Inl e | Inr (a, b, c) \<Rightarrow> Inr [a, b, c],
         s\<lparr>log_lines := log_lines s @ L, probed := probed s @ P\<rparr>)"
      using china by (simp add: safe_find_paths_try_def split: sum.splits prod.splits)
    then show ?thesis by blast
  next
    case ptb_xl
    obtain r L P where "\<forall>s. find_csv_dir_files_ptb_xl fs root s =
        (r, s\<lparr>log_lines := log_lines s @ L, probed := probed s @ P\<rparr>)"
      using ptb_xl_uniform by blast
    then have "\<forall>s. safe_find_paths_try fs n root s =
        (case r of Inl e \<Rightarrow> Inl e | Inr (a, b, c, d) \<Rightarrow> Inr [a, b, c, d],
         s\<lparr>log_lines := log_lines s @ L, probed := probed s @ P\<rparr>)"
      using ptb_xl by (simp add: safe_find_paths_try_def split: sum.splits prod.splits)
    then show ?thesis by blast
  next
    case mit_bih
    obtain r L P where "\<forall>s. find_dirs_mit_bih fs root s =
        (r, s\<lparr>log_lines := log_lines s @ L, probed := probed s @ P\<rparr>)"
      using mit_bih_uniform by blast
    then have "\<forall>s. safe_find_paths_try fs n root s =
        (case r of Inl e \<Rightarrow> Inl e | Inr (a, b) \<Rightarrow> Inr [a, b],
         s\<lparr>log_lines := log_lines s @ L, probed := probed s @ P\<rparr>)"
      using mit_bih by (simp add: safe_find_paths_try_def split: sum.splits prod.splits)
    then show ?thesis by blast
  next
    case unknown
    then have "\<forall>s. safe_find_paths_try fs n root s =
        (fst (safe_find_paths_try fs n root s_init),
         s\<lparr>log_lines := log_lines s @ [], probed := probed s @ []\<rparr>)"
      by (simp add: safe_find_paths_try_def)
    then show ?thesis by blast
  qed
qed

lemma safe_find_paths_uniform:
  "\<exists>r L P. \<forall>s. safe_find_paths fs n root s =
     (r, s\<lparr>log_lines := log_lines s @ L, probed := probed s @ P\<rparr>)"
proof -
  obtain r L P where t: "\<forall>s. safe_find_paths_try fs n root s =
      (r, s\<lparr>log_lines := log_lines s @ L, probed := probed s @ P\<rparr>)"
    using safe_find_paths_try_uniform by blast
  show ?thesis
  proof (cases r)
    case (Inl e)
    have "\<forall>s. safe_find_paths fs n root s =
        (r, s\<lparr>log_lines := log_lines s @
              (L @ [(ERROR, ''Failed to find paths for dataset '' @ [CHR 0x27] @ n @
                            [CHR 0x27] @ '': '' @ error_str e)]),
             probed := probed s @ P\<rparr>)"
      using t Inl by (simp add: safe_find_paths_def logging_error_def)
    then show ?thesis by blast
  next
    case (Inr v)
    have "\<forall>s. safe_find_paths fs n root s =
        (r, s\<lparr>log_lines := log_lines s @ L, probed := probed s @ P\<rparr>)"
      using t Inr by (simp add: safe_find_paths_def)
    then show ?thesis by blast
  qed
qed

text \<open>
  C9. The outcome of \<open>safe_find_paths\<close> is a function of the dataset name, the project root
  and the filesystem alone: there are a result, a list of log lines and a list of queries
  such that every call, from whatever state of the effects, returns that result and appends
  exactly those lines and queries. In particular a second call made after a first one
  returns the same result. The filesystem is an argument that no function returns changed.
\<close>

theorem safe_find_paths_repeatable:
  "(\<exists>r L P. \<forall>s. safe_find_paths fs n root s =
       (r, s\<lparr>log_lines := log_lines s @ L, probed := probed s @ P\<rparr>)) \<and>
   fst (safe_find_paths fs n root (snd (safe_find_paths fs n root s))) =
     fst (safe_find_paths fs n root s) \<and>
   new_log (snd (safe_find_paths fs n root s))
     (snd (safe_find_paths fs n root (snd (safe_find_paths fs n root s)))) =
     new_log s (snd (safe_find_paths fs n root s))"
proof -
  obtain r L P where u: "\<forall>s. safe_find_paths fs n root s =
      (r, s\<lparr>log_lines := log_lines s @ L, probed := probed s @ P\<rparr>)"
    using safe_find_paths_uniform by blast
  then show ?thesis
    by (auto simp: new_log_def)
qed

theorem safe_find_paths_repeatable_witness:
  "fst (safe_find_paths fs_example ''ptb_xl'' [''bare'']
          (snd (safe_find_paths fs_example ''ptb_xl'' [''bare''] s_init))) =
     fst (safe_find_paths fs_example ''ptb_xl'' [''bare''] s_init) \<and>
   new_log (snd (safe_find_paths fs_example ''ptb_xl'' [''bare''] s_init))
     (snd (safe_find_paths fs_example ''ptb_xl'' [''bare'']
             (snd (safe_find_paths fs_example ''ptb_xl'' [''bare''] s_init)))) =
     new_log s_init (snd (safe_find_paths fs_example ''ptb_xl'' [''bare''] s_init))"
  using safe_find_paths_repeatable [of fs_example "''ptb_xl''" "[''bare'']" s_init]
  by simp

subsection \<open>Log lines of a failing call\<close>

lemma new_log_append [simp]:
  "new_log s (s\<lparr>log_lines := log_lines s @ L, probed := P\<rparr>) = L"
  by (simp add: new_log_def)

lemma new_probes_append [simp]:
  "new_probes s (s\<lparr>log_lines := L, probed := probed s @ P\<rparr>) = P"
  by (simp add: new_probes_def)

lemma has_error_append [simp]: "has_error (xs @ ys) \<longleftrightarrow> has_error xs \<or> has_error ys"
  by (simp add: has_error_def)

lemma has_error_validate_dir [simp]:
  "\<not> path_is_dir fs p \<Longrightarrow> has_error (validate_log fs p True n)"
  using validate_log_failed [of fs p True n] by (auto simp: has_error_def)

lemma has_error_validate_file [simp]:
  "\<not> path_is_file fs p \<Longrightarrow> has_error (validate_log fs p False n)"
  using validate_log_failed [of fs p False n] by (auto simp: has_error_def)

lemma has_error_records_stage [simp]:
  "\<not> path_is_dir fs (records100_dir root) \<Longrightarrow> has_error (records_stage_log fs root)"
  by (simp add: records_stage_log_def)





lemma validator_error_line_append [simp]:
  "validator_error_line fs l p d (xs @ ys) \<longleftrightarrow>
     validator_error_line fs l p d xs \<or> validator_error_line fs l p d ys"
  by (auto simp: validator_error_line_def)

lemma validator_error_line_dir [simp]:
  "\<not> path_is_dir fs p \<Longrightarrow> validator_error_line fs l p True (validate_log fs p True l)"
  using validate_log_failed [of fs p True l] by (auto simp: validator_error_line_def)

lemma validator_error_line_file [simp]:
  "\<not> path_is_file fs p \<Longrightarrow> validator_error_line fs l p False (validate_log fs p False l)"
  using validate_log_failed [of fs p False l] by (auto simp: validator_error_line_def)









subsection \<open>Failing at the first missing path\<close>

lemma set_validate_probes [simp]: "set (validate_probes fs p) = {p}"
  by (simp add: validate_probes_def)

lemma china_first_failing:
  assumes "first_failing fs (china_checks root) = Some (l, p, d)"
  shows "fst (find_csv_dir_files_china fs root s) =
           Inl (FileNotFoundError (l @ '' not found: '' @ path_str p)) \<and>
         new_probes s (snd (find_csv_dir_files_china fs root s)) =
           probes_upto fs (china_checks root)"
  using assms
  by (auto simp: china_checks_def china_table split: if_splits)

lemma china_later_unprobed:
  "set (later_paths fs (china_checks root)) \<inter> set (probes_upto fs (china_checks root)) = {}"
  by (simp add: china_checks_def)

lemma mit_bih_first_failing:
  assumes "first_failing fs (mit_bih_checks root) = Some (l, p, d)"
  shows "fst (find_dirs_mit_bih fs root s) =
           Inl (FileNotFoundError (l @ '' not found: '' @ path_str p)) \<and>
         new_probes s (snd (find_dirs_mit_bih fs root s)) =
           probes_upto fs (mit_bih_checks root)"
  using assms
  by (auto simp: mit_bih_checks_def mit_bih_table split: if_splits)

lemma mit_bih_later_unprobed:
  "set (x_mit_bih_dir root # later_paths fs (mit_bih_checks root)) \<inter>
   set (probes_upto fs (mit_bih_checks root)) = {}"
  by (simp add: mit_bih_checks_def)

lemma ptb_xl_head_first_failing:
  assumes "first_failing fs (ptb_xl_head_checks root) = Some (l, p, d)"
  shows "fst (find_csv_dir_files_ptb_xl fs root s) =
           Inl (FileNotFoundError (l @ '' not found: '' @ path_str p)) \<and>
         new_probes s (snd (find_csv_dir_files_ptb_xl fs root s)) =
           probes_upto fs (ptb_xl_head_checks root)"
  using assms
  by (auto simp: ptb_xl_head_checks_def ptb_xl_table split: if_splits)

lemma ptb_xl_head_later_unprobed:
  "first_failing fs (ptb_xl_head_checks root) = Some (l, p, d) \<Longrightarrow>
   set (later_paths fs (ptb_xl_head_checks root @ ptb_xl_records_checks root @
                        ptb_xl_tail_checks root)) \<inter>
   set (probes_upto fs (ptb_xl_head_checks root)) = {}"
  by (auto simp: ptb_xl_head_checks_def ptb_xl_records_checks_def ptb_xl_tail_checks_def
      split: if_splits)

lemma ptb_xl_head_ok:
  "first_failing fs (ptb_xl_head_checks root) = None \<longleftrightarrow>
     path_is_dir fs root \<and> path_is_dir fs (data_dir root) \<and>
     path_is_dir fs (ptb_xl_dataset_dir root)"
  by (simp add: ptb_xl_head_checks_def)

lemma ptb_xl_head_probes:
  "first_failing fs (ptb_xl_head_checks root) = None \<Longrightarrow>
     probes_upto fs (ptb_xl_head_checks root) =
       [root, root, data_dir root, data_dir root, ptb_xl_dataset_dir root,
        ptb_xl_dataset_dir root]"
  by (simp add: ptb_xl_head_checks_def split: if_splits)

lemma ptb_xl_no_records:
  assumes "first_failing fs (ptb_xl_head_checks root) = None"
    and "\<not> path_is_dir fs (records100_dir root)" "\<not> path_is_dir fs (records500_dir root)"
  shows "fst (find_csv_dir_files_ptb_xl fs root s) =
           Inl (FileNotFoundError
             (''No record directories found in '' @ path_str (ptb_xl_dataset_dir root) @
              ''. Checked: '' @ path_str (records100_dir root) @ '', '' @
              path_str (records500_dir root))) \<and>
         new_probes s (snd (find_csv_dir_files_ptb_xl fs root s)) =
           probes_upto fs (ptb_xl_head_checks root) @ records_stage_probes fs root"
  using assms ptb_xl_head_probes [OF assms(1)]
  by (simp add: ptb_xl_head_ok ptb_xl_fail_records)

lemma ptb_xl_tail_first_failing:
  assumes "first_failing fs (ptb_xl_head_checks root) = None"
    and "path_is_dir fs (records100_dir root) \<or> path_is_dir fs (records500_dir root)"
    and "first_failing fs (ptb_xl_tail_checks root) = Some (l, p, d)"
  shows "fst (find_csv_dir_files_ptb_xl fs root s) =
           Inl (FileNotFoundError (l @ '' not found: '' @ path_str p)) \<and>
         new_probes s (snd (find_csv_dir_files_ptb_xl fs root s)) =
           probes_upto fs (ptb_xl_head_checks root) @ records_stage_probes fs root @
           probes_upto fs (ptb_xl_tail_checks root)"
proof -
  have h: "path_is_dir fs root" "path_is_dir fs (data_dir root)"
    "path_is_dir fs (ptb_xl_dataset_dir root)"
    using assms(1) by (simp_all add: ptb_xl_head_ok)
  consider (metadata) "\<not> path_is_file fs (ptb_xl_metadata_file root)"
      "l = ''Metadata file''" "p = ptb_xl_metadata_file root"
    | (code) "path_is_file fs (ptb_xl_metadata_file root)"
      "\<not> path_is_file fs (ptb_xl_code_file root)"
      "l = ''Code file''" "p = ptb_xl_code_file root"
    using assms(3) by (auto simp: ptb_xl_tail_checks_def split: if_splits)
  then show ?thesis
  proof cases
    case metadata
    show ?thesis
      using metadata ptb_xl_head_probes [OF assms(1)]
      by (simp add: ptb_xl_fail_metadata [OF h assms(2) metadata(1)] ptb_xl_tail_checks_def)
  next
    case code
    show ?thesis
      using code ptb_xl_head_probes [OF assms(1)]
      by (simp add: ptb_xl_fail_code [OF h assms(2) code(1,2)] ptb_xl_tail_checks_def)
  qed
qed

lemma ptb_xl_tail_later_unprobed:
  "first_failing fs (ptb_xl_head_checks root) = None \<Longrightarrow>
   set (later_paths fs (ptb_xl_tail_checks root)) \<inter>
   set (probes_upto fs (ptb_xl_head_checks root) @ records_stage_probes fs root @
        probes_upto fs (ptb_xl_tail_checks root)) = {}"
  using ptb_xl_head_probes [of fs root]
  by (simp add: ptb_xl_tail_checks_def records_stage_probes_def)

lemma ptb_xl_records_tail_unprobed:
  "first_failing fs (ptb_xl_head_checks root) = None \<Longrightarrow>
   {ptb_xl_metadata_file root, ptb_xl_code_file root} \<inter>
   set (probes_upto fs (ptb_xl_head_checks root) @ records_stage_probes fs root) = {}"
  using ptb_xl_head_probes [of fs root]
  by (simp add: records_stage_probes_def)

text \<open>
  C2, as stated: in each resolver the first path of the chain of checks that is missing or
  of the wrong kind raises the missing-path error naming that path, and no later path of
  the chain is checked. For the PTB-XL resolver it fails: below \<open>/bare\<close> the dataset
  directory is empty, the first failing check is the one of \<open>records100\<close>, yet \<open>records500\<close>
  is queried after it and the error names the dataset directory and both paths.
\<close>

theorem find_csv_dir_files_ptb_xl_checks_records500_after_records100:
  "first_failing fs_example
     (ptb_xl_head_checks [''bare''] @ ptb_xl_records_checks [''bare''] @
      ptb_xl_tail_checks [''bare'']) =
     Some (''Records100 directory'', [''bare'', ''data'', ''ptb_xl'', ''records100''], True) \<and>
   later_paths fs_example
     (ptb_xl_head_checks [''bare''] @ ptb_xl_records_checks [''bare''] @
      ptb_xl_tail_checks [''bare'']) =
     [[''bare'', ''data'', ''ptb_xl'', ''records500''],
      [''bare'', ''data'', ''ptb_xl'', ''ptbxl_database.csv''],
      [''bare'', ''data'', ''ptb_xl'', ''scp_statements.csv'']] \<and>
   find_csv_dir_files_ptb_xl fs_example [''bare''] s_init =
     (Inl (FileNotFoundError
            (''No record directories found in /bare/data/ptb_xl. '' @
             ''Checked: /bare/data/ptb_xl/records100, /bare/data/ptb_xl/records500'')),
      \<lparr>log_lines =
         [(ERROR, ''Records100 directory'' @ ne_sushchestvuet @
                  ''/bare/data/ptb_xl/records100''),
          (ERROR, ''Records500 directory'' @ ne_sushchestvuet @
                  ''/bare/data/ptb_xl/records500'')],
       probed =
         [[''bare''], [''bare''], [''bare'', ''data''], [''bare'', ''data''],
          [''bare'', ''data'', ''ptb_xl''], [''bare'', ''data'', ''ptb_xl''],
          [''bare'', ''data'', ''ptb_xl'', ''records100''],
          [''bare'', ''data'', ''ptb_xl'', ''records500'']]\<rparr>)"
proof -
  have d: "path_is_dir fs_example [''bare'']" "path_is_dir fs_example (data_dir [''bare''])"
    "path_is_dir fs_example (ptb_xl_dataset_dir [''bare''])"
    "\<not> path_is_dir fs_example (records100_dir [''bare''])"
    "\<not> path_is_dir fs_example (records500_dir [''bare''])"
    by (simp_all add: fs_example_def fs_query_defs)
  have e: "\<not> path_exists fs_example (records100_dir [''bare''])"
    "\<not> path_exists fs_example (records500_dir [''bare''])"
    by (simp_all add: fs_example_def fs_query_defs)
  have r: "find_csv_dir_files_ptb_xl fs_example [''bare''] s_init =
     (Inl (FileNotFoundError
            (''No record directories found in /bare/data/ptb_xl. '' @
             ''Checked: /bare/data/ptb_xl/records100, /bare/data/ptb_xl/records500'')),
      \<lparr>log_lines =
         [(ERROR, ''Records100 directory'' @ ne_sushchestvuet @
                  ''/bare/data/ptb_xl/records100''),
          (ERROR, ''Records500 directory'' @ ne_sushchestvuet @
                  ''/bare/data/ptb_xl/records500'')],
       probed =
         [[''bare''], [''bare''], [''bare'', ''data''], [''bare'', ''data''],
          [''bare'', ''data'', ''ptb_xl''], [''bare'', ''data'', ''ptb_xl''],
          [''bare'', ''data'', ''ptb_xl'', ''records100''],
          [''bare'', ''data'', ''ptb_xl'', ''records500'']]\<rparr>)"
    using d e
    by (simp add: ptb_xl_fail_records [OF d] records_stage_log_def records_stage_probes_def
        validate_log_def validate_probes_def s_init_def path_str_def)
  show ?thesis
    using d r
    by (simp add: ptb_xl_head_checks_def ptb_xl_records_checks_def ptb_xl_tail_checks_def)
qed

text \<open>
  C2, amended. In \<open>find_csv_dir_files_china\<close> and \<open>find_dirs_mit_bih\<close> the checks of the chain
  (project root, \<open>data/\<close>, dataset directory, and for China \<open>records/\<close>, \<open>metadata.csv\<close>,
  \<open>code.csv\<close>) are made in order; at the first one that is missing or of the wrong kind the
  call raises the missing-path error "label not found: path" for exactly that path, the
  queries made are those of the chain up to and including it, no later path is queried and
  nothing is returned. \<open>find_csv_dir_files_ptb_xl\<close> does the same for project root, \<open>data/\<close>
  and \<open>data/ptb_xl/\<close>, and, once at least one records directory was found, for
  \<open>ptbxl_database.csv\<close> and \<open>scp_statements.csv\<close>. Its records stage in between always
  queries both \<open>records100/\<close> and \<open>records500/\<close>; if neither is a directory the error names
  the dataset directory and both paths, and the metadata and code files are not queried.
\<close>

theorem resolvers_fail_at_first_failing_check:
  "(first_failing fs (china_checks root) = Some (l, p, d) \<longrightarrow>
      fst (find_csv_dir_files_china fs root s) =
        Inl (FileNotFoundError (l @ '' not found: '' @ path_str p)) \<and>
      new_probes s (snd (find_csv_dir_files_china fs root s)) =
        probes_upto fs (china_checks root) \<and>
      set (later_paths fs (china_checks root)) \<inter>
        set (new_probes s (snd (find_csv_dir_files_china fs root s))) = {}) \<and>
   (first_failing fs (mit_bih_checks root) = Some (l, p, d) \<longrightarrow>
      fst (find_dirs_mit_bih fs root s) =
        Inl (FileNotFoundError (l @ '' not found: '' @ path_str p)) \<and>
      new_probes s (snd (find_dirs_mit_bih fs root s)) =
        probes_upto fs (mit_bih_checks root) \<and>
      set (x_mit_bih_dir root # later_paths fs (mit_bih_checks root)) \<inter>
        set (new_probes s (snd (find_dirs_mit_bih fs root s))) = {}) \<and>
   (first_failing fs (ptb_xl_head_checks root) = Some (l, p, d) \<longrightarrow>
      fst (find_csv_dir_files_ptb_xl fs root s) =
        Inl (FileNotFoundError (l @ '' not found: '' @ path_str p)) \<and>
      new_probes s (snd (find_csv_dir_files_ptb_xl fs root s)) =
        probes_upto fs (ptb_xl_head_checks root) \<and>
      set (later_paths fs (ptb_xl_head_checks root @ ptb_xl_records_checks root @
                           ptb_xl_tail_checks root)) \<inter>
        set (new_probes s (snd (find_csv_dir_files_ptb_xl fs root s))) = {}) \<and>
   (first_failing fs (ptb_xl_head_checks root) = None \<and>
    \<not> path_is_dir fs (records100_dir root) \<and> \<not> path_is_dir fs (records500_dir root) \<longrightarrow>
      fst (find_csv_dir_files_ptb_xl fs root s) =
        Inl (FileNotFoundError
          (''No record directories found in '' @ path_str (ptb_xl_dataset_dir root) @
           ''. Checked: '' @ path_str (records100_dir root) @ '', '' @
           path_str (records500_dir root))) \<and>
      new_probes s (snd (find_csv_dir_files_ptb_xl fs root s)) =
        probes_upto fs (ptb_xl_head_checks root) @
        validate_probes fs (records100_dir root) @ validate_probes fs (records500_dir root) \<and>
      {ptb_xl_metadata_file root, ptb_xl_code_file root} \<inter>
        set (new_probes s (snd (find_csv_dir_files_ptb_xl fs root s))) = {}) \<and>
   (first_failing fs (ptb_xl_head_checks root) = None \<and>
    (path_is_dir fs (records100_dir root) \<or> path_is_dir fs (records500_dir root)) \<and>
    first_failing fs (ptb_xl_tail_checks root) = Some (l, p, d) \<longrightarrow>
      fst (find_csv_dir_files_ptb_xl fs root s) =
        Inl (FileNotFoundError (l @ '' not found: '' @ path_str p)) \<and>
      new_probes s (snd (find_csv_dir_files_ptb_xl fs root s)) =
        probes_upto fs (ptb_xl_head_checks root) @
        validate_probes fs (records100_dir root) @ validate_probes fs (records500_dir root) @
        probes_upto fs (ptb_xl_tail_checks root) \<and>
      set (later_paths fs (ptb_xl_tail_checks root)) \<inter>
        set (new_probes s (snd (find_csv_dir_files_ptb_xl fs root s))) = {})"
proof (intro conjI impI)
  assume a: "first_failing fs (china_checks root) = Some (l, p, d)"
  from china_first_failing [OF a, of s] china_later_unprobed [of fs root]
  show "fst (find_csv_dir_files_china fs root s) =
        Inl (FileNotFoundError (l @ '' not found: '' @ path_str p))"
    and "new_probes s (snd (find_csv_dir_files_china fs root s)) =
        probes_upto fs (china_checks root)"
    and "set (later_paths fs (china_checks root)) \<inter>
        set (new_probes s (snd (find_csv_dir_files_china fs root s))) = {}"
    by simp_all
next
  assume a: "first_failing fs (mit_bih_checks root) = Some (l, p, d)"
  from mit_bih_first_failing [OF a, of s] mit_bih_later_unprobed [of root fs]
  show "fst (find_dirs_mit_bih fs root s) =
        Inl (FileNotFoundError (l @ '' not found: '' @ path_str p))"
    and "new_probes s (snd (find_dirs_mit_bih fs root s)) =
        probes_upto fs (mit_bih_checks root)"
    and "set (x_mit_bih_dir root # later_paths fs (mit_bih_checks root)) \<inter>
        set (new_probes s (snd (find_dirs_mit_bih fs root s))) = {}"
    by simp_all
next
  assume a: "first_failing fs (ptb_xl_head_checks root) = Some (l, p, d)"
  from ptb_xl_head_first_failing [OF a, of s] ptb_xl_head_later_unprobed [OF a]
  show "fst (find_csv_dir_files_ptb_xl fs root s) =
        Inl (FileNotFoundError (l @ '' not found: '' @ path_str p))"
    and "new_probes s (snd (find_csv_dir_files_ptb_xl fs root s)) =
        probes_upto fs (ptb_xl_head_checks root)"
    and "set (later_paths fs (ptb_xl_head_checks root @ ptb_xl_records_checks root @
                           ptb_xl_tail_checks root)) \<inter>
        set (new_probes s (snd (find_csv_dir_files_ptb_xl fs root s))) = {}"
    by simp_all
next
  assume a: "first_failing fs (ptb_xl_head_checks root) = None \<and>
    \<not> path_is_dir fs (records100_dir root) \<and> \<not> path_is_dir fs (records500_dir root)"
  then have h: "first_failing fs (ptb_xl_head_checks root) = None"
    and r: "\<not> path_is_dir fs (records100_dir root)" "\<not> path_is_dir fs (records500_dir root)"
    by simp_all
  from ptb_xl_no_records [OF h r, of s] ptb_xl_records_tail_unprobed [OF h]
  show "fst (find_csv_dir_files_ptb_xl fs root s) =
        Inl (FileNotFoundError
          (''No record directories found in '' @ path_str (ptb_xl_dataset_dir root) @
           ''. Checked: '' @ path_str (records100_dir root) @ '', '' @
           path_str (records500_dir root)))"
    and "new_probes s (snd (find_csv_dir_files_ptb_xl fs root s)) =
        probes_upto fs (ptb_xl_head_checks root) @
        validate_probes fs (records100_dir root) @ validate_probes fs (records500_dir root)"
    and "{ptb_xl_metadata_file root, ptb_xl_code_file root} \<inter>
        set (new_probes s (snd (find_csv_dir_files_ptb_xl fs root s))) = {}"
    by (simp_all add: records_stage_probes_def)
next
  assume a: "first_failing fs (ptb_xl_head_checks root) = None \<and>
    (path_is_dir fs (records100_dir root) \<or> path_is_dir fs (records500_dir root)) \<and>
    first_failing fs (ptb_xl_tail_checks root) = Some (l, p, d)"
  then have h: "first_failing fs (ptb_xl_head_checks root) = None"
    and r: "path_is_dir fs (records100_dir root) \<or> path_is_dir fs (records500_dir root)"
    and t: "first_failing fs (ptb_xl_tail_checks root) = Some (l, p, d)"
    by simp_all
  from ptb_xl_tail_first_failing [OF h r t, of s] ptb_xl_tail_later_unprobed [OF h]
  show "fst (find_csv_dir_files_ptb_xl fs root s) =
        Inl (FileNotFoundError (l @ '' not found: '' @ path_str p))"
    and "new_probes s (snd (find_csv_dir_files_ptb_xl fs root s)) =
        probes_upto fs (ptb_xl_head_checks root) @
        validate_probes fs (records100_dir root) @ validate_probes fs (records500_dir root) @
        probes_upto fs (ptb_xl_tail_checks root)"
    and "set (later_paths fs (ptb_xl_tail_checks root)) \<inter>
        set (new_probes s (snd (find_csv_dir_files_ptb_xl fs root s))) = {}"
    by (simp_all add: records_stage_probes_def)
qed

theorem resolvers_fail_at_first_failing_check_witness:
  "first_failing fs_example (china_checks [''bare'']) =
     Some (''Dataset directory'', [''bare'', ''data'', ''china_12_lead''], True) \<and>
   fst (find_csv_dir_files_china fs_example [''bare''] s_init) =
     Inl (FileNotFoundError ''Dataset directory not found: /bare/data/china_12_lead'') \<and>
   new_probes s_init (snd (find_csv_dir_files_china fs_example [''bare''] s_init)) =
     [[''bare''], [''bare''], [''bare'', ''data''], [''bare'', ''data''],
      [''bare'', ''data'', ''china_12_lead'']] \<and>
   first_failing fs_example (mit_bih_checks [''nowhere'']) =
     Some (''Project directory'', [''nowhere''], True) \<and>
   fst (find_dirs_mit_bih fs_example [''nowhere''] s_init) =
     Inl (FileNotFoundError ''Project directory not found: /nowhere'') \<and>
   first_failing fs_example (ptb_xl_head_checks [''nowhere'']) =
     Some (''Project directory'', [''nowhere''], True) \<and>
   fst (find_csv_dir_files_ptb_xl fs_example [''nowhere''] s_init) =
     Inl (FileNotFoundError ''Project directory not found: /nowhere'') \<and>
   first_failing fs_example (ptb_xl_head_checks [''bare'']) = None \<and>
   \<not> path_is_dir fs_example (records100_dir [''bare'']) \<and>
   \<not> path_is_dir fs_example (records500_dir [''bare'']) \<and>
   fst (find_csv_dir_files_ptb_xl fs_example [''bare''] s_init) =
     Inl (FileNotFoundError
           (''No record directories found in /bare/data/ptb_xl. '' @
            ''Checked: /bare/data/ptb_xl/records100, /bare/data/ptb_xl/records500'')) \<and>
   first_failing fs_example (ptb_xl_head_checks [''part'']) = None \<and>
   path_is_dir fs_example (records500_dir [''part'']) \<and>
   first_failing fs_example (ptb_xl_tail_checks [''part'']) =
     Some (''Metadata file'', [''part'', ''data'', ''ptb_xl'', ''ptbxl_database.csv''], False) \<and>
   fst (find_csv_dir_files_ptb_xl fs_example [''part''] s_init) =
     Inl (FileNotFoundError
           ''Metadata file not found: /part/data/ptb_xl/ptbxl_database.csv'')"
proof -
  have c1: "first_failing fs_example (china_checks [''bare'']) =
      Some (''Dataset directory'', [''bare'', ''data'', ''china_12_lead''], True)"
    by (simp add: china_checks_def fs_example_def fs_query_defs)
  have c2: "first_failing fs_example (mit_bih_checks [''nowhere'']) =
      Some (''Project directory'', [''nowhere''], True)"
    by (simp add: mit_bih_checks_def fs_example_def fs_query_defs)
  have c3: "first_failing fs_example (ptb_xl_head_checks [''nowhere'']) =
      Some (''Project directory'', [''nowhere''], True)"
    by (simp add: ptb_xl_head_checks_def fs_example_def fs_query_defs)
  have c4: "first_failing fs_example (ptb_xl_head_checks [''bare'']) = None"
    "\<not> path_is_dir fs_example (records100_dir [''bare''])"
    "\<not> path_is_dir fs_example (records500_dir [''bare''])"
    by (simp_all add: ptb_xl_head_checks_def fs_example_def fs_query_defs)
  have c5: "first_failing fs_example (ptb_xl_head_checks [''part'']) = None"
    "path_is_dir fs_example (records500_dir [''part''])"
    "first_failing fs_example (ptb_xl_tail_checks [''part'']) =
      Some (''Metadata file'', [''part'', ''data'', ''ptb_xl'', ''ptbxl_database.csv''], False)"
    by (simp_all add: ptb_xl_head_checks_def ptb_xl_tail_checks_def fs_example_def
        fs_query_defs)
  have p1: "probes_upto fs_example (china_checks [''bare'']) =
      [[''bare''], [''bare''], [''bare'', ''data''], [''bare'', ''data''],
       [''bare'', ''data'', ''china_12_lead'']]"
    by (simp add: china_checks_def validate_probes_def fs_example_def fs_query_defs)
  have r1: "fst (find_csv_dir_files_china fs_example [''bare''] s_init) =
      Inl (FileNotFoundError (''Dataset directory'' @ '' not found: '' @
             path_str [''bare'', ''data'', ''china_12_lead''])) \<and>
      new_probes s_init (snd (find_csv_dir_files_china fs_example [''bare''] s_init)) =
        probes_upto fs_example (china_checks [''bare''])"
    using c1 resolvers_fail_at_first_failing_check [of fs_example "[''bare'']"
        "''Dataset directory''" "[''bare'', ''data'', ''china_12_lead'']" True s_init]
    by blast
  have r2: "fst (find_dirs_mit_bih fs_example [''nowhere''] s_init) =
      Inl (FileNotFoundError (''Project directory'' @ '' not found: '' @ path_str [''nowhere'']))"
    using c2 resolvers_fail_at_first_failing_check [of fs_example "[''nowhere'']"
        "''Project directory''" "[''nowhere'']" True s_init]
    by blast
  have r3: "fst (find_csv_dir_files_ptb_xl fs_example [''nowhere''] s_init) =
      Inl (FileNotFoundError (''Project directory'' @ '' not found: '' @ path_str [''nowhere'']))"
    using c3 resolvers_fail_at_first_failing_check [of fs_example "[''nowhere'']"
        "''Project directory''" "[''nowhere'']" True s_init]
    by blast
  have r4: "fst (find_csv_dir_files_ptb_xl fs_example [''bare''] s_init) =
      Inl (FileNotFoundError
        (''No record directories found in '' @ path_str (ptb_xl_dataset_dir [''bare'']) @
         ''. Checked: '' @ path_str (records100_dir [''bare'']) @ '', '' @
         path_str (records500_dir [''bare''])))"
    using c4 resolvers_fail_at_first_failing_check [of fs_example "[''bare'']"
        "''x''" "[]" True s_init]
    by blast
  have r5: "fst (find_csv_dir_files_ptb_xl fs_example [''part''] s_init) =
      Inl (FileNotFoundError (''Metadata file'' @ '' not found: '' @
             path_str [''part'', ''data'', ''ptb_xl'', ''ptbxl_database.csv'']))"
    using c5 resolvers_fail_at_first_failing_check [of fs_example "[''part'']"
        "''Metadata file''" "[''part'', ''data'', ''ptb_xl'', ''ptbxl_database.csv'']"
        False s_init]
    by blast
  show ?thesis
    using c1 c2 c3 c4 c5 p1 r1 r2 r3 r4 r5
    by (simp add: path_str_def)
qed

end
